theory Spec2Isabelle
  imports Main
begin

section \<open>Kortex: the document-grounded conversation engine of app.py\<close>

text \<open>
  The development embeds the request handlers of \<^verbatim>\<open>app.py\<close> (\<^verbatim>\<open>upload\<close>, \<^verbatim>\<open>chat\<close>,
  \<^verbatim>\<open>tutor\<close>, \<^verbatim>\<open>deep_dive\<close>) as functions from the database before the request to the
  response, the database after it and the list of effects performed, in order.

  Conventions of the embedding.
  \<^item> The two tables are maps from their primary key (\<^verbatim>\<open>doc_hash\<close>, \<^verbatim>\<open>id\<close>) to the other
    columns. A query \<^verbatim>\<open>filter_by(key=k).first()\<close> is a lookup. The key of a conversation
    is the text \<^verbatim>\<open>str\<close> prints for its id. The column \<^verbatim>\<open>id\<close> is a UUID: a query by the
    text of a request first reads the text as a UUID and raises when it is not one.
    \<^verbatim>\<open>pickle.loads (pickle.dumps x)\<close> is \<^verbatim>\<open>x\<close>.
  \<^item> A handler runs inside one session: what it adds is stored by \<^verbatim>\<open>session.commit()\<close>
    and dropped by \<^verbatim>\<open>session.rollback()\<close> or by returning before the commit.
  \<^item> Every library the handlers call (werkzeug, hashlib, pdfplumber, fitz, pytesseract,
    docx, langchain, Ollama, Gemini, SerpApi, the storage layer at commit time) is a field
    of the record \<^verbatim>\<open>env\<close>: a function giving the outcome of the call, an exception
    (\<^verbatim>\<open>Inl\<close>) or a value (\<^verbatim>\<open>Inr\<close>).
  \<^item> Python's truth test \<^verbatim>\<open>not x\<close> on an optional text holds for \<^verbatim>\<open>None\<close> and for the
    empty text.
  \<^item> A streamed response is run to its end: the caller reads the whole stream. The
    fragments it receives are the \<^verbatim>\<open>Yield\<close> effects, in order.
  \<^item> Requests are handled one at a time: two requests racing on one row are outside the
    embedding.
  \<^item> A \<^verbatim>\<open>char\<close> stands for one code point below 256 of a Python \<^verbatim>\<open>str\<close>.
\<close>

subsection \<open>Exceptions\<close>

datatype exc =
    AttributeError string
  | TypeError string
  | ValueError string
  | IntegrityError string
  | DataError string
  | Failure string

text \<open>\<^verbatim>\<open>str(e)\<close>: the message of an exception.\<close>

fun str :: "exc \<Rightarrow> string" where
  "str (AttributeError m) = m"
| "str (TypeError m) = m"
| "str (ValueError m) = m"
| "str (IntegrityError m) = m"
| "str (DataError m) = m"
| "str (Failure m) = m"

subsection \<open>Tables\<close>

type_synonym bytes = "char list"

text \<open>
  An unpickled element of the column \<^verbatim>\<open>chunks\<close>: a plain \<^verbatim>\<open>str\<close>, which is what
  \<^verbatim>\<open>upload\<close> stores, or a langchain \<^verbatim>\<open>Document\<close> with its \<^verbatim>\<open>page_content\<close>, which
  \<^verbatim>\<open>tutor\<close> and \<^verbatim>\<open>deep_dive\<close> read.
\<close>

datatype chunk = Str_chunk string | Document string

record document_store =
  chunks :: "chunk list"
  faiss_index :: bytes

text \<open>
  A history entry is a 3-tuple of texts: \<^verbatim>\<open>('langchain', message, answer)\<close> written by
  \<^verbatim>\<open>chat\<close>, \<^verbatim>\<open>('gemini', 'user', message)\<close> and \<^verbatim>\<open>('gemini', 'model', answer)\<close> written
  by \<^verbatim>\<open>tutor\<close> and \<^verbatim>\<open>deep_dive\<close>.
\<close>

type_synonym entry = "string \<times> string \<times> string"

record conversation =
  title :: string
  created_at :: nat
  doc_hash :: "string option"
  chat_history :: "entry list"
  tutor_curriculum :: "string option"

record database =
  document_rows :: "string \<rightharpoonup> document_store"
  conversation_rows :: "string \<rightharpoonup> conversation"

subsection \<open>Prompts, effects and responses\<close>

text \<open>
  A prompt is represented by the values the handler interpolates into its fixed wording.
\<close>

datatype prompt =
    Curriculum_prompt string
  | Tutor_prompt bool "string option" "entry list" string string
  | Query_gen_prompt string
  | Synthesis_prompt string string

datatype effect =
    Extract_text
  | Split_text
  | Build_index
  | Load_index
  | Llm_invoke string
  | Chain_call string "(string \<times> string) list"
  | Generate prompt
  | Generate_stream prompt
  | Search_web string
  | Yield string
  | Commit

text \<open>
  The responses: the JSON success of \<^verbatim>\<open>upload\<close>, a JSON error with its status, and a
  \<^verbatim>\<open>text/plain\<close> stream with the fragments sent and the exception that left the
  generator, if one did.
\<close>

datatype response =
    File_processed string
  | Error_response nat string
  | Streamed "string list" "exc option"

type_synonym outcome = "response \<times> database \<times> effect list"

fun yields :: "effect list \<Rightarrow> string list" where
  "yields [] = []"
| "yields (Yield t # es) = t # yields es"
| "yields (e # es) = yields es"

subsection \<open>The environment\<close>

record env =
  serper_api_key :: "string option"
  secure_filename :: "string \<Rightarrow> string"
  md5_hexdigest :: "bytes \<Rightarrow> string"
  pdfplumber_pages :: "bytes \<Rightarrow> exc + string list"
  ocr_pages :: "bytes \<Rightarrow> exc + string list"
  docx_paragraphs :: "bytes \<Rightarrow> exc + string list"
  split_text :: "string \<Rightarrow> exc + string list"
  build_index :: "string list \<Rightarrow> exc + bytes"
  uuid4 :: string
  uuid_of :: "string \<Rightarrow> exc + string"
  now :: nat
  commit_exc :: "database \<Rightarrow> exc option"
  llm_invoke :: "string \<Rightarrow> exc + string"
  load_index :: "bytes \<Rightarrow> exc option"
  qa_chain :: "bytes \<Rightarrow> string \<Rightarrow> (string \<times> string) list \<Rightarrow> exc + string option"
  generate_content :: "prompt \<Rightarrow> exc + string"
  generate_stream :: "prompt \<Rightarrow> exc + (exc + string) list"
  json_loads :: "string \<Rightarrow> exc + string list"
  search :: "string \<Rightarrow> exc + string option list"

text \<open>
  \<^item> \<^verbatim>\<open>pdfplumber_pages\<close>: the \<^verbatim>\<open>extract_text\<close> of each page (\<^verbatim>\<open>None\<close> as the empty
    text); \<^verbatim>\<open>ocr_pages\<close>: \<^verbatim>\<open>image_to_string\<close> of each page; \<^verbatim>\<open>docx_paragraphs\<close>: the
    text of each paragraph.
  \<^item> \<^verbatim>\<open>build_index\<close>: \<^verbatim>\<open>get_ollama_embeddings\<close>, \<^verbatim>\<open>get_vector_store\<close> and
    \<^verbatim>\<open>serialize_to_bytes\<close>.
  \<^item> \<^verbatim>\<open>uuid4\<close>, \<^verbatim>\<open>now\<close>: the column defaults of a new conversation, the id as \<^verbatim>\<open>str\<close>
    prints it.
  \<^item> \<^verbatim>\<open>uuid_of\<close>: the UUID that a query \<^verbatim>\<open>filter_by(id=text)\<close> compares with the column
    \<^verbatim>\<open>id\<close>, as \<^verbatim>\<open>str\<close> prints it, or the exception the query raises when the text is
    not a UUID.
  \<^item> \<^verbatim>\<open>commit_exc\<close>: the exception \<^verbatim>\<open>session.commit()\<close> raises, if any, on the state to
    be stored. A conflict of primary keys is modelled apart, in \<^verbatim>\<open>upload\<close>.
  \<^item> \<^verbatim>\<open>load_index\<close>: \<^verbatim>\<open>get_ollama_embeddings\<close>, \<^verbatim>\<open>FAISS.deserialize_from_bytes\<close> and
    \<^verbatim>\<open>get_conversation_chain\<close>; \<^verbatim>\<open>qa_chain\<close>: the call of the chain, giving the value
    under \<^verbatim>\<open>'answer'\<close> if the result has one.
  \<^item> \<^verbatim>\<open>generate_content\<close>: \<^verbatim>\<open>model.generate_content(prompt).text\<close>;
    \<^verbatim>\<open>generate_stream\<close>: the same with \<^verbatim>\<open>stream=True\<close>, a sequence whose items are the
    \<^verbatim>\<open>text\<close> of a chunk or the exception raised on reaching it.
  \<^item> \<^verbatim>\<open>json_loads\<close>: \<^verbatim>\<open>json.loads\<close> on the matched text, the queries being texts.
  \<^item> \<^verbatim>\<open>search\<close>: the \<^verbatim>\<open>organic_results\<close> of a search, each with its \<^verbatim>\<open>snippet\<close> if it
    has one.
\<close>

subsection \<open>Python's truth test and text helpers\<close>

definition falsy :: "string option \<Rightarrow> bool" where
  "falsy x = (case x of None \<Rightarrow> True | Some s \<Rightarrow> s = [])"

text \<open>\<^verbatim>\<open>str.isspace\<close> on the code points below 256.\<close>

definition isspace :: "char \<Rightarrow> bool" where
  "isspace c = (of_char c \<in> {9, 10, 11, 12, 13, 28, 29, 30, 31, 32, 133, 160 :: nat})"

definition strip :: "string \<Rightarrow> string" where
  "strip s = rev (dropWhile isspace (rev (dropWhile isspace s)))"

text \<open>\<^verbatim>\<open>str.lower\<close> on ASCII, which is all \<^verbatim>\<open>secure_filename\<close> returns.\<close>

definition lower_char :: "char \<Rightarrow> char" where
  "lower_char c =
     (if 65 \<le> (of_char c :: nat) \<and> (of_char c :: nat) \<le> 90 then char_of (of_char c + 32 :: nat) else c)"

definition lower :: "string \<Rightarrow> string" where
  "lower s = map lower_char s"

text \<open>
  The second component of \<^verbatim>\<open>os.path.splitext\<close>: the text from the last dot of the last
  path component on, when a character other than a dot stands before that dot.
\<close>

definition splitext_ext :: "string \<Rightarrow> string" where
  "splitext_ext p =
     (let base = rev (takeWhile (\<lambda>c. c \<noteq> CHR ''/'') (rev p)) in
      if CHR ''.'' \<notin> set base then []
      else
        let ext = rev (takeWhile (\<lambda>c. c \<noteq> CHR ''.'') (rev base));
            stem = take (length base - length ext - 1) base
        in if list_all (\<lambda>c. c = CHR ''.'') stem then [] else CHR ''.'' # ext)"

text \<open>The two characters \<^verbatim>\<open>"\\n"\<close> of the source: a backslash and the letter n.\<close>

definition backslash_n :: string where
  "backslash_n = [CHR 0x5C, CHR ''n'']"

text \<open>\<^verbatim>\<open>sep.join(xs)\<close>.\<close>

fun join :: "string \<Rightarrow> string list \<Rightarrow> string" where
  "join sep [] = []"
| "join sep [x] = x"
| "join sep (x # y # ys) = x @ sep @ join sep (y # ys)"

subsection \<open>get_document_text\<close>

text \<open>
  \<^verbatim>\<open>text += page_text + "\\n"\<close> for every page whose text is not empty; every paragraph of
  a Word document is added, empty or not.
\<close>

definition add_lines :: "string list \<Rightarrow> string" where
  "add_lines ts = concat (map (\<lambda>t. t @ backslash_n) ts)"

definition pdf_text :: "env \<Rightarrow> bytes \<Rightarrow> exc + string" where
  "pdf_text env file_content =
     (case pdfplumber_pages env file_content of
        Inl e \<Rightarrow> Inl e
      | Inr pages \<Rightarrow>
          let text = add_lines (filter (\<lambda>t. t \<noteq> []) pages) in
          if strip text = [] then
            (case ocr_pages env file_content of
               Inl e \<Rightarrow> Inl e
             | Inr images \<Rightarrow> Inr (text @ add_lines images))
          else Inr text)"

definition get_document_text :: "env \<Rightarrow> string \<Rightarrow> bytes \<Rightarrow> string" where
  "get_document_text env filepath file_content =
     (let file_extension = lower (splitext_ext filepath) in
      if file_extension = ''.pdf'' then
        (case pdf_text env file_content of Inl e \<Rightarrow> [] | Inr text \<Rightarrow> text)
      else if file_extension = ''.docx'' then
        (case docx_paragraphs env file_content of Inl e \<Rightarrow> [] | Inr paras \<Rightarrow> add_lines paras)
      else [])"

subsection \<open>upload\<close>

record upload_request =
  file_part :: "(string \<times> bytes) option"
  x_conversation_id :: "string option"

definition no_text_message :: string where
  "no_text_message = ''This document contains no readable text or is too short to analyze.''"

definition upload_failed :: "exc \<Rightarrow> response" where
  "upload_failed e = Error_response 500 (''An error occurred: '' @ str e)"

text \<open>
  Lines 426 to 437: the document table after the lookup by digest and, when no record
  has the digest, extraction, the length test, chunking, embedding and \<^verbatim>\<open>session.add\<close>;
  or the response that ends the request there.
\<close>

definition ingest ::
  "env \<Rightarrow> string \<Rightarrow> bytes \<Rightarrow> string \<Rightarrow> database
     \<Rightarrow> (response \<times> effect list) + ((string \<rightharpoonup> document_store) \<times> effect list)" where
  "ingest env filename file_content h db =
     (case document_rows db h of
        Some doc \<Rightarrow> Inr (document_rows db, [])
      | None \<Rightarrow>
          let raw_text = get_document_text env filename file_content in
          if raw_text = [] \<or> length (strip raw_text) < 50 then
            Inl (Error_response 400 no_text_message, [Extract_text])
          else
            (case split_text env raw_text of
               Inl e \<Rightarrow> Inl (upload_failed e, [Extract_text, Split_text])
             | Inr text_chunks \<Rightarrow>
                 (case build_index env text_chunks of
                    Inl e \<Rightarrow> Inl (upload_failed e, [Extract_text, Split_text, Build_index])
                  | Inr index \<Rightarrow>
                      Inr ((document_rows db)
                             (h \<mapsto> \<lparr>chunks = map Str_chunk text_chunks, faiss_index = index\<rparr>),
                           [Extract_text, Split_text, Build_index]))))"

text \<open>
  \<^verbatim>\<open>Conversation(title=filename, doc_hash=doc_hash)\<close> with the defaults of its other
  columns.
\<close>

definition new_conversation :: "env \<Rightarrow> string \<Rightarrow> string \<Rightarrow> conversation" where
  "new_conversation env filename h =
     \<lparr>title = filename, created_at = now env, doc_hash = Some h, chat_history = [],
      tutor_curriculum = None\<rparr>"

definition duplicate_key :: exc where
  "duplicate_key = IntegrityError ''duplicate key value violates unique constraint''"

text \<open>
  Lines 439 to 452: the conversation named by the header is rebound; without one a new
  row is added under a generated id, which the store refuses when the id is in use. A
  header that is not a UUID makes the query of line 442 raise: the session is rolled
  back and the answer is the 500 of the handler.
\<close>

definition attach ::
  "env \<Rightarrow> string \<Rightarrow> string \<Rightarrow> string option \<Rightarrow> (string \<rightharpoonup> document_store) \<Rightarrow> effect list
     \<Rightarrow> database \<Rightarrow> outcome" where
  "attach env filename h conv_id_header docs effects db =
     (let found =
            (case conv_id_header of
               None \<Rightarrow> Inr None
             | Some id_text \<Rightarrow>
                 if id_text = [] then Inr None
                 else
                   (case uuid_of env id_text of
                      Inl e \<Rightarrow> Inl e
                    | Inr k \<Rightarrow>
                        (case conversation_rows db k of
                           None \<Rightarrow> Inr None
                         | Some conv \<Rightarrow> Inr (Some (k, conv)))))
      in
      case found of
        Inl e \<Rightarrow> (upload_failed e, db, effects)
      | Inr (Some (k, conv)) \<Rightarrow>
          (let db' = \<lparr>document_rows = docs,
                      conversation_rows =
                        (conversation_rows db)(k \<mapsto> conv\<lparr>doc_hash := Some h, title := filename\<rparr>)\<rparr>
           in case commit_exc env db' of
                Some e \<Rightarrow> (upload_failed e, db, effects)
              | None \<Rightarrow> (File_processed k, db', effects @ [Commit]))
      | Inr None \<Rightarrow>
          (case conversation_rows db (uuid4 env) of
             Some other \<Rightarrow> (upload_failed duplicate_key, db, effects)
           | None \<Rightarrow>
               (let db' = \<lparr>document_rows = docs,
                           conversation_rows =
                             (conversation_rows db)
                               (uuid4 env \<mapsto> new_conversation env filename h)\<rparr>
                in case commit_exc env db' of
                     Some e \<Rightarrow> (upload_failed e, db, effects)
                   | None \<Rightarrow> (File_processed (uuid4 env), db', effects @ [Commit]))))"

definition upload :: "env \<Rightarrow> upload_request \<Rightarrow> database \<Rightarrow> outcome" where
  "upload env req db =
     (case file_part req of
        None \<Rightarrow> (Error_response 400 ''No file part'', db, [])
      | Some (name, file_content) \<Rightarrow>
          if name = [] then (Error_response 400 ''No file part'', db, [])
          else
            let filename = secure_filename env name;
                h = md5_hexdigest env file_content
            in case ingest env filename file_content h db of
                 Inl (resp, effects) \<Rightarrow> (resp, db, effects)
               | Inr (docs, effects) \<Rightarrow>
                   attach env filename h (x_conversation_id req) docs effects db)"

subsection \<open>Writing a turn back\<close>

text \<open>
  \<^verbatim>\<open>conv_to_update = session.merge(conv)\<close>, the assignment of the pickled list to
  \<^verbatim>\<open>chat_history\<close> and \<^verbatim>\<open>session.commit()\<close>: the row of the conversation takes the
  columns of \<^verbatim>\<open>conv\<close> and the new history, unless the commit raises.
\<close>

definition persist_turn ::
  "env \<Rightarrow> string \<Rightarrow> conversation \<Rightarrow> entry list \<Rightarrow> database \<Rightarrow> exc + database" where
  "persist_turn env cid conv chat_history_list db =
     (let db' = db\<lparr>conversation_rows :=
                    (conversation_rows db)(cid \<mapsto> conv\<lparr>chat_history := chat_history_list\<rparr>)\<rparr>
      in case commit_exc env db' of Some e \<Rightarrow> Inl e | None \<Rightarrow> Inr db')"

text \<open>
  The run of a generator: its effects, the exception that left it (if any) and the
  database after it. \<^verbatim>\<open>streamed\<close> is the response Flask sends from such a run, after
  the effects of the view.
\<close>

type_synonym run = "effect list \<times> exc option \<times> database"

definition streamed :: "effect list \<Rightarrow> run \<Rightarrow> outcome" where
  "streamed view_effects r =
     (case r of
        (effects, raised, db') \<Rightarrow> (Streamed (yields effects) raised, db', view_effects @ effects))"

subsection \<open>chat\<close>

record turn_request =
  conversation_id :: "string option"
  message :: "string option"

definition missing_fields :: response where
  "missing_fields = Error_response 400 ''Missing conversation_id or message''"

definition generate_general ::
  "env \<Rightarrow> string \<Rightarrow> string \<Rightarrow> conversation \<Rightarrow> entry list \<Rightarrow> database \<Rightarrow> run" where
  "generate_general env msg cid conv chat_history_list db =
     (case llm_invoke env msg of
        Inl e \<Rightarrow> ([Llm_invoke msg], Some e, db)
      | Inr response \<Rightarrow>
          (case persist_turn env cid conv
                  (chat_history_list @ [(''langchain'', msg, response)]) db of
             Inl e \<Rightarrow> ([Llm_invoke msg, Yield response], Some e, db)
           | Inr db' \<Rightarrow> ([Llm_invoke msg, Yield response, Commit], None, db')))"

definition generate_doc_chat ::
  "env \<Rightarrow> bytes \<Rightarrow> string \<Rightarrow> (string \<times> string) list \<Rightarrow> string \<Rightarrow> conversation \<Rightarrow> entry list
     \<Rightarrow> database \<Rightarrow> run" where
  "generate_doc_chat env index msg langchain_history_format cid conv chat_history_list db =
     (case qa_chain env index msg langchain_history_format of
        Inl e \<Rightarrow> ([Chain_call msg langchain_history_format], Some e, db)
      | Inr response \<Rightarrow>
          (let answer = (case response of
                           None \<Rightarrow> ''Sorry, I could not find an answer.''
                         | Some a \<Rightarrow> a)
           in case persist_turn env cid conv
                     (chat_history_list @ [(''langchain'', msg, answer)]) db of
                Inl e \<Rightarrow> ([Chain_call msg langchain_history_format, Yield answer], Some e, db)
              | Inr db' \<Rightarrow>
                  ([Chain_call msg langchain_history_format, Yield answer, Commit], None, db')))"

text \<open>
  \<^verbatim>\<open>[(item[1], item[2]) for item in chat_history_list if len(item) == 3 and item[0] == 'langchain']\<close>
\<close>

definition langchain_history_format :: "entry list \<Rightarrow> (string \<times> string) list" where
  "langchain_history_format chat_history_list =
     map snd (filter (\<lambda>item. fst item = ''langchain'') chat_history_list)"

definition chat_failed :: "exc \<Rightarrow> response" where
  "chat_failed e = Error_response 500 (''An error occurred: '' @ str e)"

text \<open>
  The query of line 467 compares the column \<^verbatim>\<open>id\<close> with the text of the request read as a
  UUID; on a text that is not one it raises, inside the \<^verbatim>\<open>try\<close> of the view.
\<close>

definition chat :: "env \<Rightarrow> turn_request \<Rightarrow> database \<Rightarrow> outcome" where
  "chat env req db =
     (case conversation_id req of
        None \<Rightarrow> (missing_fields, db, [])
      | Some id_text \<Rightarrow>
     (case message req of
        None \<Rightarrow> (missing_fields, db, [])
      | Some msg \<Rightarrow>
          if id_text = [] \<or> msg = [] then (missing_fields, db, [])
          else
     (case uuid_of env id_text of
        Inl e \<Rightarrow> (chat_failed e, db, [])
      | Inr cid \<Rightarrow>
     (case conversation_rows db cid of
        None \<Rightarrow> (Error_response 404 ''Conversation not found'', db, [])
      | Some conv \<Rightarrow>
          let chat_history_list = chat_history conv in
          if falsy (doc_hash conv) then
            streamed [] (generate_general env msg cid conv chat_history_list db)
          else
     (case document_rows db (the (doc_hash conv)) of
        None \<Rightarrow> (Error_response 404 ''Document data not found'', db, [])
      | Some doc_store \<Rightarrow>
     (case load_index env (faiss_index doc_store) of
        Some e \<Rightarrow> (chat_failed e, db, [Load_index])
      | None \<Rightarrow>
          streamed [Load_index]
            (generate_doc_chat env (faiss_index doc_store) msg
               (langchain_history_format chat_history_list) cid conv chat_history_list db)))))))"

subsection \<open>Reading the stored chunks\<close>

text \<open>Decimal digits of a number, for the messages of the interpreter.\<close>

function dec :: "nat \<Rightarrow> string" where
  "dec n = (if n < 10 then [char_of (48 + n)] else dec (n div 10) @ [char_of (48 + n mod 10)])"
  by pat_completeness auto
termination
  by (relation "measure id") auto

definition quoted :: "string \<Rightarrow> string" where
  "quoted s = [CHR 0x27] @ s @ [CHR 0x27]"

text \<open>\<^verbatim>\<open>chunk.page_content\<close>: an attribute of a \<^verbatim>\<open>Document\<close>, not of a \<^verbatim>\<open>str\<close>.\<close>

definition page_content :: "chunk \<Rightarrow> exc + string" where
  "page_content c =
     (case c of
        Document t \<Rightarrow> Inr t
      | Str_chunk s \<Rightarrow>
          Inl (AttributeError
                 (quoted ''str'' @ '' object has no attribute '' @ quoted ''page_content'')))"

text \<open>\<^verbatim>\<open>[chunk.page_content for chunk in loaded_chunks]\<close>: the first failure ends it.\<close>

fun page_contents :: "chunk list \<Rightarrow> exc + string list" where
  "page_contents [] = Inr []"
| "page_contents (c # cs) =
     (case page_content c of
        Inl e \<Rightarrow> Inl e
      | Inr t \<Rightarrow> (case page_contents cs of Inl e \<Rightarrow> Inl e | Inr ts \<Rightarrow> Inr (t # ts)))"

text \<open>The items of \<^verbatim>\<open>"\\n".join(loaded_chunks)\<close>, which must all be \<^verbatim>\<open>str\<close>.\<close>

fun str_items :: "nat \<Rightarrow> chunk list \<Rightarrow> exc + string list" where
  "str_items i [] = Inr []"
| "str_items i (Document t # cs) =
     Inl (TypeError (''sequence item '' @ dec i @ '': expected str instance, Document found''))"
| "str_items i (Str_chunk s # cs) =
     (case str_items (Suc i) cs of Inl e \<Rightarrow> Inl e | Inr ts \<Rightarrow> Inr (s # ts))"

text \<open>
  Line 522 of \<^verbatim>\<open>tutor\<close>: the page contents when the list starts with a \<^verbatim>\<open>Document\<close>,
  the items themselves otherwise. Line 623 of \<^verbatim>\<open>deep_dive\<close>: the page contents, whatever
  the list holds.
\<close>

definition tutor_document_context :: "chunk list \<Rightarrow> exc + string" where
  "tutor_document_context loaded_chunks =
     (case loaded_chunks of
        Document t # rest \<Rightarrow>
          (case page_contents loaded_chunks of
             Inl e \<Rightarrow> Inl e
           | Inr ts \<Rightarrow> Inr (join backslash_n ts))
      | _ \<Rightarrow>
          (case str_items 0 loaded_chunks of
             Inl e \<Rightarrow> Inl e
           | Inr ts \<Rightarrow> Inr (join backslash_n ts)))"

definition deep_dive_document_context :: "chunk list \<Rightarrow> exc + string" where
  "deep_dive_document_context stored =
     (case page_contents stored of Inl e \<Rightarrow> Inl e | Inr ts \<Rightarrow> Inr (join backslash_n ts))"

subsection \<open>Consuming a Gemini stream\<close>

text \<open>
  \<^verbatim>\<open>for chunk in stream: if chunk.text: yield chunk.text; full_response += chunk.text\<close>:
  the fragments sent, the accumulated answer and the exception that ended the loop, if
  one did.
\<close>

fun consume :: "(exc + string) list \<Rightarrow> effect list \<times> string \<times> exc option" where
  "consume [] = ([], [], None)"
| "consume (Inl e # rest) = ([], [], Some e)"
| "consume (Inr t # rest) =
     (case consume rest of
        (effects, full_response, raised) \<Rightarrow>
          if t = [] then (effects, full_response, raised)
          else (Yield t # effects, t @ full_response, raised))"

subsection \<open>tutor\<close>

definition tutor_failed :: "exc \<Rightarrow> response" where
  "tutor_failed e = Error_response 500 (''Analysis failed: '' @ str e)"

definition tutor_error_text :: "exc \<Rightarrow> string" where
  "tutor_error_text e = ''I'm sorry, a critical error occurred. Error: '' @ str e"

definition none_has_no_curriculum :: exc where
  "none_has_no_curriculum =
     AttributeError (quoted ''NoneType'' @ '' object has no attribute '' @ quoted ''tutor_curriculum'')"

text \<open>The body of the \<^verbatim>\<open>try\<close> of \<^verbatim>\<open>generate_tutor_response\<close>.\<close>

definition tutor_try ::
  "env \<Rightarrow> string \<Rightarrow> string \<Rightarrow> entry list \<Rightarrow> entry list \<Rightarrow> string \<Rightarrow> database \<Rightarrow> run" where
  "tutor_try env msg cid chat_history_list gemini_history document_context db =
     (case conversation_rows db cid of
        None \<Rightarrow> ([], Some none_has_no_curriculum, db)
      | Some fresh_conv \<Rightarrow>
          let is_first_tutor_message = \<not> list_ex (\<lambda>item. fst item = ''gemini'') chat_history_list;
              master_prompt =
                Tutor_prompt is_first_tutor_message (tutor_curriculum fresh_conv) gemini_history
                  (take 4000 document_context) msg
          in
          (case generate_stream env master_prompt of
             Inl e \<Rightarrow> ([Generate_stream master_prompt], Some e, db)
           | Inr response_stream \<Rightarrow>
               (case consume response_stream of
                  (sent, full_response, Some e) \<Rightarrow>
                    (Generate_stream master_prompt # sent, Some e, db)
                | (sent, full_response, None) \<Rightarrow>
                    (case persist_turn env cid fresh_conv
                            (chat_history_list @
                               [(''gemini'', ''user'', msg), (''gemini'', ''model'', full_response)])
                            db of
                       Inl e \<Rightarrow> (Generate_stream master_prompt # sent, Some e, db)
                     | Inr db' \<Rightarrow>
                         (Generate_stream master_prompt # sent @ [Commit], None, db')))))"

text \<open>\<^verbatim>\<open>except Exception as e: yield f"I'm sorry, ..."\<close>\<close>

definition generate_tutor_response ::
  "env \<Rightarrow> string \<Rightarrow> string \<Rightarrow> entry list \<Rightarrow> entry list \<Rightarrow> string \<Rightarrow> database \<Rightarrow> run" where
  "generate_tutor_response env msg cid chat_history_list gemini_history document_context db =
     (case tutor_try env msg cid chat_history_list gemini_history document_context db of
        (effects, Some e, db') \<Rightarrow> (effects @ [Yield (tutor_error_text e)], None, db')
      | (effects, None, db') \<Rightarrow> (effects, None, db'))"

text \<open>
  The query of line 515 raises on a text that is not a UUID, as the one of \<^verbatim>\<open>chat\<close> does.
\<close>

definition tutor :: "env \<Rightarrow> turn_request \<Rightarrow> database \<Rightarrow> outcome" where
  "tutor env req db =
     (case conversation_id req of
        None \<Rightarrow> (missing_fields, db, [])
      | Some id_text \<Rightarrow>
     (case message req of
        None \<Rightarrow> (missing_fields, db, [])
      | Some msg \<Rightarrow>
          if id_text = [] \<or> msg = [] then (missing_fields, db, [])
          else
     (case uuid_of env id_text of
        Inl e \<Rightarrow> (tutor_failed e, db, [])
      | Inr cid \<Rightarrow>
     (case conversation_rows db cid of
        None \<Rightarrow> (Error_response 404 ''Conversation or document not found'', db, [])
      | Some conv \<Rightarrow>
          if falsy (doc_hash conv) then
            (Error_response 404 ''Conversation or document not found'', db, [])
          else
     (case document_rows db (the (doc_hash conv)) of
        None \<Rightarrow> (Error_response 404 ''Document content not found'', db, [])
      | Some doc_store \<Rightarrow>
     (case tutor_document_context (chunks doc_store) of
        Inl e \<Rightarrow> (tutor_failed e, db, [])
      | Inr document_context \<Rightarrow>
          let chat_history_list = chat_history conv;
              gemini_history = filter (\<lambda>item. fst item = ''gemini'') chat_history_list
          in
          if falsy (tutor_curriculum conv) then
            (let curriculum_prompt = Curriculum_prompt (take 10000 document_context) in
             case generate_content env curriculum_prompt of
               Inl e \<Rightarrow> (tutor_failed e, db, [Generate curriculum_prompt])
             | Inr text \<Rightarrow>
                 (let db1 = db\<lparr>conversation_rows :=
                                 (conversation_rows db)
                                   (cid \<mapsto> conv\<lparr>tutor_curriculum := Some text\<rparr>)\<rparr>
                  in case commit_exc env db1 of
                       Some e \<Rightarrow> (tutor_failed e, db, [Generate curriculum_prompt])
                     | None \<Rightarrow>
                         streamed [Generate curriculum_prompt, Commit]
                           (generate_tutor_response env msg cid chat_history_list gemini_history
                              document_context db1)))
          else
            streamed []
              (generate_tutor_response env msg cid chat_history_list gemini_history
                 document_context db)))))))"

subsection \<open>deep_dive\<close>

definition deep_dive_failed :: "exc \<Rightarrow> response" where
  "deep_dive_failed e = Error_response 500 (''Analysis failed: '' @ str e)"

definition deep_dive_error_text :: "exc \<Rightarrow> string" where
  "deep_dive_error_text e = ''A critical error occurred during Deep Dive. Error: '' @ str e"

text \<open>
  \<^verbatim>\<open>re.search(r'\[.*\]', response_text, re.DOTALL)\<close>: from the first opening bracket to
  the last closing bracket after it.
\<close>

definition json_match :: "string \<Rightarrow> string option" where
  "json_match response_text =
     (let from_open = dropWhile (\<lambda>c. c \<noteq> CHR ''['') response_text;
          matched = rev (dropWhile (\<lambda>c. c \<noteq> CHR '']'') (rev from_open))
      in if matched = [] then None else Some matched)"

definition searching_for :: "string \<Rightarrow> string" where
  "searching_for query = ''Searching for: '' @ quoted query @ ''...<br>''"

definition snippets :: "string option list \<Rightarrow> string" where
  "snippets organic_results =
     concat (map (\<lambda>result. case result of None \<Rightarrow> [] | Some snippet \<Rightarrow> snippet @ ''<br>'')
               (take 3 organic_results))"

text \<open>The loop over the queries: what it sends and calls, and the web context or the
  exception that ended it.\<close>

fun search_all :: "env \<Rightarrow> string list \<Rightarrow> string \<Rightarrow> effect list \<times> (exc + string)" where
  "search_all env [] web_context = ([], Inr web_context)"
| "search_all env (query # rest) web_context =
     (case search env query of
        Inl e \<Rightarrow> ([Yield (searching_for query), Search_web query], Inl e)
      | Inr organic_results \<Rightarrow>
          (case search_all env rest (web_context @ snippets organic_results) of
             (effects, r) \<Rightarrow> (Yield (searching_for query) # Search_web query # effects, r)))"

text \<open>The body of the \<^verbatim>\<open>try\<close> of \<^verbatim>\<open>generate_deep_dive_response\<close>.\<close>

definition deep_dive_try ::
  "env \<Rightarrow> string \<Rightarrow> conversation \<Rightarrow> entry list \<Rightarrow> string \<Rightarrow> database \<Rightarrow> run" where
  "deep_dive_try env cid conv chat_history_list document_context db =
     (let query_gen_prompt = Query_gen_prompt (take 4000 document_context) in
      case generate_content env query_gen_prompt of
        Inl e \<Rightarrow> ([Generate query_gen_prompt], Some e, db)
      | Inr response_text \<Rightarrow>
     (case json_match response_text of
        None \<Rightarrow>
          ([Generate query_gen_prompt],
           Some (ValueError ''AI failed to generate search queries.''), db)
      | Some json_str \<Rightarrow>
     (case json_loads env json_str of
        Inl e \<Rightarrow> ([Generate query_gen_prompt], Some e, db)
      | Inr queries \<Rightarrow>
     (case search_all env queries [] of
        (searched, Inl e) \<Rightarrow>
          (Generate query_gen_prompt
             # Yield ''Gathering live intelligence from the web...<br>'' # searched,
           Some e, db)
      | (searched, Inr web_context) \<Rightarrow>
          let before_synthesis =
                Generate query_gen_prompt
                  # Yield ''Gathering live intelligence from the web...<br>'' # searched
                  @ [Yield ''<br>Synthesizing intelligence brief...<br><br>''];
              synthesis_prompt = Synthesis_prompt (take 4000 document_context) web_context
          in
     (case generate_stream env synthesis_prompt of
        Inl e \<Rightarrow> (before_synthesis @ [Generate_stream synthesis_prompt], Some e, db)
      | Inr synthesis_stream \<Rightarrow>
     (case consume synthesis_stream of
        (sent, full_response, Some e) \<Rightarrow>
          (before_synthesis @ Generate_stream synthesis_prompt # sent, Some e, db)
      | (sent, full_response, None) \<Rightarrow>
     (case persist_turn env cid conv
             (chat_history_list @
                [(''gemini'', ''user'', ''Deep Dive Analysis''),
                 (''gemini'', ''model'', full_response)])
             db of
        Inl e \<Rightarrow> (before_synthesis @ Generate_stream synthesis_prompt # sent, Some e, db)
      | Inr db' \<Rightarrow>
          (before_synthesis @ Generate_stream synthesis_prompt # sent @ [Commit],
           None, db'))))))))"

definition generate_deep_dive_response ::
  "env \<Rightarrow> string \<Rightarrow> conversation \<Rightarrow> entry list \<Rightarrow> string \<Rightarrow> database \<Rightarrow> run" where
  "generate_deep_dive_response env cid conv chat_history_list document_context db =
     (case deep_dive_try env cid conv chat_history_list document_context db of
        (effects, Some e, db') \<Rightarrow> (effects @ [Yield (deep_dive_error_text e)], None, db')
      | (effects, None, db') \<Rightarrow> (effects, None, db'))"

text \<open>
  \<^verbatim>\<open>deep_dive\<close> reads \<^verbatim>\<open>conversation_id\<close> only, and a missing one finds no conversation.
  Any text, the empty one too, reaches the query of line 617, which raises when the
  text is not a UUID.
\<close>

definition deep_dive :: "env \<Rightarrow> turn_request \<Rightarrow> database \<Rightarrow> outcome" where
  "deep_dive env req db =
     (if falsy (serper_api_key env) then
        (Error_response 500 ''Serper API key not configured'', db, [])
      else
     (case conversation_id req of
        None \<Rightarrow> (Error_response 400 ''A document must be associated for a Deep Dive.'', db, [])
      | Some id_text \<Rightarrow>
     (case uuid_of env id_text of
        Inl e \<Rightarrow> (deep_dive_failed e, db, [])
      | Inr cid \<Rightarrow>
     (case conversation_rows db cid of
        None \<Rightarrow> (Error_response 400 ''A document must be associated for a Deep Dive.'', db, [])
      | Some conv \<Rightarrow>
          if falsy (doc_hash conv) then
            (Error_response 400 ''A document must be associated for a Deep Dive.'', db, [])
          else
     (case document_rows db (the (doc_hash conv)) of
        None \<Rightarrow> (Error_response 404 ''Document content not found.'', db, [])
      | Some doc_store \<Rightarrow>
     (case deep_dive_document_context (chunks doc_store) of
        Inl e \<Rightarrow> (deep_dive_failed e, db, [])
      | Inr document_context \<Rightarrow>
          streamed []
            (generate_deep_dive_response env cid conv (chat_history conv) document_context
               db)))))))"

section \<open>Vocabulary of the properties\<close>

text \<open>
  The texts of a stream's items, in order, and the history stored for a conversation.
\<close>

fun fragments :: "(exc + string) list \<Rightarrow> string list" where
  "fragments [] = []"
| "fragments (Inl e # rest) = fragments rest"
| "fragments (Inr t # rest) = t # fragments rest"

definition history_of :: "database \<Rightarrow> string \<Rightarrow> entry list option" where
  "history_of db cid = map_option chat_history (conversation_rows db cid)"

text \<open>
  A series of tutor requests on one conversation, each with its own environment and
  message: the database after the last one and all effects, in order.
\<close>

fun tutor_session ::
  "(env \<times> string option) list \<Rightarrow> string \<Rightarrow> database \<Rightarrow> database \<times> effect list" where
  "tutor_session [] id_text db = (db, [])"
| "tutor_session ((env, msg) # calls) id_text db =
     (case tutor env \<lparr>conversation_id = Some id_text, message = msg\<rparr> db of
        (resp, db', effects) \<Rightarrow>
          (case tutor_session calls id_text db' of
             (db'', later) \<Rightarrow> (db'', effects @ later)))"

section \<open>Scenarios\<close>

text \<open>
  A concrete environment in which every library answers, and the requests and databases
  the properties below are run on.
\<close>

text \<open>
  The reader of ids of the scenarios accepts the form \<^verbatim>\<open>str\<close> prints, 8-4-4-4-12
  hexadecimal digits in either case, and raises on every other text.
\<close>

definition hex_digit :: "char \<Rightarrow> bool" where
  "hex_digit c =
     (let n = (of_char c :: nat)
      in 48 \<le> n \<and> n \<le> 57 \<or> 65 \<le> n \<and> n \<le> 70 \<or> 97 \<le> n \<and> n \<le> 102)"

definition canonical_uuid :: "string \<Rightarrow> bool" where
  "canonical_uuid t =
     (length t = 36
      \<and> list_all hex_digit (take 8 t) \<and> t ! 8 = CHR ''-''
      \<and> list_all hex_digit (take 4 (drop 9 t)) \<and> t ! 13 = CHR ''-''
      \<and> list_all hex_digit (take 4 (drop 14 t)) \<and> t ! 18 = CHR ''-''
      \<and> list_all hex_digit (take 4 (drop 19 t)) \<and> t ! 23 = CHR ''-''
      \<and> list_all hex_digit (drop 24 t))"

definition read_uuid :: "string \<Rightarrow> exc + string" where
  "read_uuid t =
     (if canonical_uuid t then Inr (lower t)
      else Inl (DataError ''invalid input syntax for type uuid''))"

definition first_id :: string where
  "first_id = ''00000000-0000-4000-8000-000000000001''"

definition second_id :: string where
  "second_id = ''00000000-0000-4000-8000-000000000002''"

definition stale_id :: string where
  "stale_id = ''00000000-0000-4000-8000-000000000009''"

definition env0 :: env where
  "env0 =
     \<lparr>serper_api_key = Some ''key'',
      secure_filename = (\<lambda>name. name),
      md5_hexdigest = (\<lambda>content. ''md5 of '' @ content),
      pdfplumber_pages = (\<lambda>content. Inr [content]),
      ocr_pages = (\<lambda>content. Inr []),
      docx_paragraphs = (\<lambda>content. Inr [content]),
      split_text = (\<lambda>text. Inr [text]),
      build_index = (\<lambda>texts. Inr ''index''),
      uuid4 = first_id,
      uuid_of = read_uuid,
      now = 0,
      commit_exc = (\<lambda>db. None),
      llm_invoke = (\<lambda>msg. Inr (''echo '' @ msg)),
      load_index = (\<lambda>index. None),
      qa_chain = (\<lambda>index question memory. Inr (Some ''answer'')),
      generate_content =
        (\<lambda>p. case p of Curriculum_prompt document \<Rightarrow> Inr ''1. Topic'' | _ \<Rightarrow> Inr ''[query]''),
      generate_stream = (\<lambda>p. Inr [Inr ''Hel'', Inr [], Inr ''lo'']),
      json_loads = (\<lambda>s. Inr [''query'']),
      search = (\<lambda>query. Inr [Some ''snippet'', None])\<rparr>"

definition empty_db :: database where
  "empty_db = \<lparr>document_rows = Map.empty, conversation_rows = Map.empty\<rparr>"

text \<open>A PDF whose only page reads \<^verbatim>\<open>12345678\<close>: ten characters of extracted text.\<close>

definition short_upload :: upload_request where
  "short_upload = \<lparr>file_part = Some (''a.pdf'', ''12345678''), x_conversation_id = None\<rparr>"

definition long_content :: bytes where
  "long_content = ''A document of more than fifty characters, enough to be analysed.''"

definition good_upload :: upload_request where
  "good_upload = \<lparr>file_part = Some (''a.pdf'', long_content), x_conversation_id = None\<rparr>"

definition digest0 :: string where
  "digest0 = ''md5 of '' @ long_content"

definition conv0 :: conversation where
  "conv0 =
     \<lparr>title = ''a.pdf'', created_at = 0, doc_hash = Some digest0, chat_history = [],
      tutor_curriculum = None\<rparr>"

text \<open>The database after \<^verbatim>\<open>good_upload\<close> on the empty one.\<close>

definition stored_docs :: "string \<rightharpoonup> document_store" where
  "stored_docs =
     [digest0 \<mapsto> \<lparr>chunks = [Str_chunk (long_content @ backslash_n)], faiss_index = ''index''\<rparr>]"

definition stored_db :: database where
  "stored_db =
     \<lparr>document_rows = stored_docs, conversation_rows = [first_id \<mapsto> conv0]\<rparr>"

text \<open>
  A later upload of the same bytes by another client, a header with an id that names no
  row, and a header that is no id.
\<close>

definition again_upload :: upload_request where
  "again_upload = \<lparr>file_part = Some (''copy.pdf'', long_content), x_conversation_id = None\<rparr>"

definition env1 :: env where
  "env1 = env0\<lparr>uuid4 := second_id\<rparr>"

definition stale_upload :: upload_request where
  "stale_upload =
     \<lparr>file_part = Some (''a.pdf'', long_content), x_conversation_id = Some stale_id\<rparr>"

definition malformed_upload :: upload_request where
  "malformed_upload =
     \<lparr>file_part = Some (''a.pdf'', long_content),
      x_conversation_id = Some ''no such conversation''\<rparr>"

definition first_question :: turn_request where
  "first_question = \<lparr>conversation_id = Some first_id, message = Some ''hello''\<rparr>"

definition other_content :: bytes where
  "other_content = ''Another document, which also has more than fifty characters.''"

text \<open>A conversation bound to the stored document, after one tutor turn.\<close>

definition tutored_conv :: conversation where
  "tutored_conv =
     \<lparr>title = ''a.pdf'', created_at = 0, doc_hash = Some digest0,
      chat_history = [(''gemini'', ''user'', ''Let us begin''), (''gemini'', ''model'', ''Hello'')],
      tutor_curriculum = Some ''1. Topic''\<rparr>"

definition tutored_db :: database where
  "tutored_db = stored_db\<lparr>conversation_rows := [first_id \<mapsto> tutored_conv]\<rparr>"

definition rebind_upload :: upload_request where
  "rebind_upload =
     \<lparr>file_part = Some (''b.docx'', other_content), x_conversation_id = Some first_id\<rparr>"

text \<open>A conversation created by a first message, without a document.\<close>

definition plain_conv :: conversation where
  "plain_conv =
     \<lparr>title = ''hello'', created_at = 0, doc_hash = None, chat_history = [],
      tutor_curriculum = None\<rparr>"

definition plain_db :: database where
  "plain_db = \<lparr>document_rows = Map.empty, conversation_rows = [first_id \<mapsto> plain_conv]\<rparr>"

text \<open>The stored conversation with an empty text as its curriculum.\<close>

definition blank_db :: database where
  "blank_db =
     stored_db\<lparr>conversation_rows := [first_id \<mapsto> conv0\<lparr>tutor_curriculum := Some []\<rparr>]\<rparr>"

text \<open>A history with entries of both channels.\<close>

definition mixed_conv :: conversation where
  "mixed_conv =
     tutored_conv
       \<lparr>chat_history :=
          [(''langchain'', ''q1'', ''a1''), (''gemini'', ''user'', ''Let us begin''),
           (''gemini'', ''model'', ''Hello''), (''langchain'', ''q2'', ''a2'')]\<rparr>"

definition mixed_db :: database where
  "mixed_db = stored_db\<lparr>conversation_rows := [first_id \<mapsto> mixed_conv]\<rparr>"


definition env_llm_down :: env where
  "env_llm_down = env0\<lparr>llm_invoke := (\<lambda>msg. Inl (Failure ''connection refused''))\<rparr>"

definition env_chain_down :: env where
  "env_chain_down =
     env0\<lparr>qa_chain := (\<lambda>index question memory. Inl (Failure ''connection refused''))\<rparr>"

definition env_store_down :: env where
  "env_store_down = env0\<lparr>commit_exc := (\<lambda>db. Some (Failure ''connection lost''))\<rparr>"

definition env_no_key :: env where
  "env_no_key = env0\<lparr>serper_api_key := None\<rparr>"

text \<open>A document whose chunks were stored as \<^verbatim>\<open>Document\<close> objects.\<close>

definition legacy_db :: database where
  "legacy_db =
     stored_db\<lparr>document_rows :=
                 [digest0 \<mapsto> \<lparr>chunks = [Document long_content], faiss_index = ''index''\<rparr>]\<rparr>"

definition two_calls :: "(env \<times> string option) list" where
  "two_calls = [(env0, Some ''hello''), (env0, Some ''more'')]"

section \<open>Properties\<close>

subsection \<open>Text helpers\<close>

lemma length_strip_le: "length (strip s) \<le> length s"
  unfolding strip_def
  by (metis length_rev length_dropWhile_le le_trans)

lemma short_upload_text:
  "get_document_text env0 ''a.pdf'' ''12345678'' = ''12345678'' @ backslash_n"
  by (simp add: get_document_text_def env0_def pdf_text_def add_lines_def lower_def
      splitext_ext_def lower_char_def strip_def backslash_n_def isspace_def)

subsection \<open>The runs of the generators\<close>

lemma consume_sent:
  "consume stream = (sent, full_response, raised) \<Longrightarrow> Commit \<notin> set sent \<and> (\<forall>p. Generate p \<notin> set sent)"
  by (induction stream arbitrary: sent full_response raised rule: consume.induct)
     (auto split: prod.splits if_splits)

lemma consume_complete:
  "consume stream = (sent, full_response, None)
   \<Longrightarrow> (\<forall>e. Inl e \<notin> set stream) \<and> full_response = concat (fragments stream)
       \<and> yields sent = filter (\<lambda>t. t \<noteq> []) (fragments stream)"
  by (induction stream arbitrary: sent full_response rule: consume.induct)
     (auto split: prod.splits if_splits)

lemma consume_raised:
  "consume stream = (sent, full_response, Some e) \<Longrightarrow> Inl e \<in> set stream"
  by (induction stream arbitrary: sent full_response rule: consume.induct)
     (auto split: prod.splits if_splits)

lemma persist_turn_cases:
  "persist_turn env cid conv h db = r \<Longrightarrow>
     (\<exists>e. r = Inl e) \<or>
     r = Inr (db\<lparr>conversation_rows := (conversation_rows db)(cid \<mapsto> conv\<lparr>chat_history := h\<rparr>)\<rparr>)"
  by (auto simp: persist_turn_def Let_def split: option.splits)


lemma generate_doc_chat_cases:
  assumes "generate_doc_chat env index msg memory cid conv h db = (effects, raised, db')"
  shows "(db' = db \<and> Commit \<notin> set effects \<and> (\<exists>e. raised = Some e)
           \<and> (\<exists>rest. effects = Chain_call msg memory # rest))
       \<or> (\<exists>answer. raised = None \<and> effects = [Chain_call msg memory, Yield answer, Commit]
             \<and> db' = db\<lparr>conversation_rows :=
                          (conversation_rows db)
                            (cid \<mapsto> conv\<lparr>chat_history := h @ [(''langchain'', msg, answer)]\<rparr>)\<rparr>)"
  using assms
  by (auto simp: generate_doc_chat_def persist_turn_def Let_def split: sum.splits option.splits)

lemma tutor_try_cases:
  assumes "tutor_try env msg cid h gemini_history document_context db = (effects, raised, db')"
    and "conversation_rows db cid = Some fresh_conv"
    and "p = Tutor_prompt (\<not> list_ex (\<lambda>item. fst item = ''gemini'') h)
                (tutor_curriculum fresh_conv) gemini_history (take 4000 document_context) msg"
  shows "\<exists>rest. effects = Generate_stream p # rest
         \<and> (\<forall>q. Generate q \<notin> set rest)
         \<and> ((db' = db \<and> Commit \<notin> set rest \<and> (\<exists>e. raised = Some e))
            \<or> (\<exists>stream sent.
                 raised = None \<and> rest = sent @ [Commit] \<and> Commit \<notin> set sent
                 \<and> generate_stream env p = Inr stream
                 \<and> (\<forall>e. Inl e \<notin> set stream)
                 \<and> yields sent = filter (\<lambda>t. t \<noteq> []) (fragments stream)
                 \<and> db' = db\<lparr>conversation_rows :=
                              (conversation_rows db)
                                (cid \<mapsto> fresh_conv
                                   \<lparr>chat_history :=
                                      h @ [(''gemini'', ''user'', msg),
                                           (''gemini'', ''model'', concat (fragments stream))]\<rparr>)\<rparr>))"
proof (cases "generate_stream env p")
  case (Inl e)
  with assms show ?thesis by (auto simp: tutor_try_def Let_def)
next
  case (Inr stream)
  obtain sent full r where c: "consume stream = (sent, full, r)"
    by (cases "consume stream")
  note s = consume_sent [OF c]
  show ?thesis
  proof (cases r)
    case (Some e)
    with assms Inr c s show ?thesis by (auto simp: tutor_try_def Let_def)
  next
    case None
    note k = consume_complete [OF c [unfolded None]]
    let ?h' = "h @ [(''gemini'', ''user'', msg), (''gemini'', ''model'', full)]"
    from persist_turn_cases [OF refl, of env cid fresh_conv ?h' db]
    show ?thesis
    proof
      assume "\<exists>e. persist_turn env cid fresh_conv ?h' db = Inl e"
      with assms Inr c None s show ?thesis by (auto simp: tutor_try_def Let_def)
    next
      assume w: "persist_turn env cid fresh_conv ?h' db
        = Inr (db\<lparr>conversation_rows := (conversation_rows db)(cid \<mapsto> fresh_conv\<lparr>chat_history := ?h'\<rparr>)\<rparr>)"
      have run: "effects = Generate_stream p # sent @ [Commit]" "raised = None"
        "db' = db\<lparr>conversation_rows := (conversation_rows db)(cid \<mapsto> fresh_conv\<lparr>chat_history := ?h'\<rparr>)\<rparr>"
        using assms Inr c None w by (auto simp: tutor_try_def Let_def)
      have "\<exists>stream' sent'.
                 raised = None \<and> sent @ [Commit] = sent' @ [Commit] \<and> Commit \<notin> set sent'
                 \<and> generate_stream env p = Inr stream'
                 \<and> (\<forall>e. Inl e \<notin> set stream')
                 \<and> yields sent' = filter (\<lambda>t. t \<noteq> []) (fragments stream')
                 \<and> db' = db\<lparr>conversation_rows :=
                              (conversation_rows db)
                                (cid \<mapsto> fresh_conv
                                   \<lparr>chat_history :=
                                      h @ [(''gemini'', ''user'', msg),
                                           (''gemini'', ''model'', concat (fragments stream'))]\<rparr>)\<rparr>"
        apply (rule exI [of _ stream], rule exI [of _ sent])
        using run s k Inr by simp
      with run s show ?thesis by auto
    qed
  qed
qed


lemma yields_append: "yields (xs @ ys) = yields xs @ yields ys"
  by (induction xs rule: yields.induct) auto

lemma generate_tutor_response_cases:
  assumes "generate_tutor_response env msg cid h gemini_history document_context db
           = (effects, raised, db')"
    and "conversation_rows db cid = Some fresh_conv"
    and "p = Tutor_prompt (\<not> list_ex (\<lambda>item. fst item = ''gemini'') h)
                (tutor_curriculum fresh_conv) gemini_history (take 4000 document_context) msg"
  shows "raised = None
       \<and> (\<exists>rest. effects = Generate_stream p # rest
         \<and> (\<forall>q. Generate q \<notin> set rest)
         \<and> ((db' = db \<and> Commit \<notin> set rest
              \<and> (\<exists>e before. rest = before @ [Yield (tutor_error_text e)]))
            \<or> (\<exists>stream sent.
                 rest = sent @ [Commit] \<and> Commit \<notin> set sent
                 \<and> generate_stream env p = Inr stream
                 \<and> (\<forall>e. Inl e \<notin> set stream)
                 \<and> yields sent = filter (\<lambda>t. t \<noteq> []) (fragments stream)
                 \<and> db' = db\<lparr>conversation_rows :=
                              (conversation_rows db)
                                (cid \<mapsto> fresh_conv
                                   \<lparr>chat_history :=
                                      h @ [(''gemini'', ''user'', msg),
                                           (''gemini'', ''model'', concat (fragments stream))]\<rparr>)\<rparr>)))"
proof -
  obtain effects0 raised0 db0 where
    t: "tutor_try env msg cid h gemini_history document_context db = (effects0, raised0, db0)"
    by (cases "tutor_try env msg cid h gemini_history document_context db")
  from tutor_try_cases [OF t assms(2,3)] obtain rest0 where
    e0: "effects0 = Generate_stream p # rest0" and g0: "\<forall>q. Generate q \<notin> set rest0"
    and alt: "(db0 = db \<and> Commit \<notin> set rest0 \<and> (\<exists>e. raised0 = Some e))
            \<or> (\<exists>stream sent.
                 raised0 = None \<and> rest0 = sent @ [Commit] \<and> Commit \<notin> set sent
                 \<and> generate_stream env p = Inr stream
                 \<and> (\<forall>e. Inl e \<notin> set stream)
                 \<and> yields sent = filter (\<lambda>t. t \<noteq> []) (fragments stream)
                 \<and> db0 = db\<lparr>conversation_rows :=
                              (conversation_rows db)
                                (cid \<mapsto> fresh_conv
                                   \<lparr>chat_history :=
                                      h @ [(''gemini'', ''user'', msg),
                                           (''gemini'', ''model'', concat (fragments stream))]\<rparr>)\<rparr>)"
    by blast
  from alt show ?thesis
  proof
    assume f: "db0 = db \<and> Commit \<notin> set rest0 \<and> (\<exists>e. raised0 = Some e)"
    then obtain e where e: "raised0 = Some e" by blast
    have "effects = Generate_stream p # rest0 @ [Yield (tutor_error_text e)]"
      and "raised = None" and "db' = db"
      using assms(1) t e0 e f by (auto simp: generate_tutor_response_def)
    with f g0 show ?thesis by auto
  next
    assume s: "\<exists>stream sent.
                 raised0 = None \<and> rest0 = sent @ [Commit] \<and> Commit \<notin> set sent
                 \<and> generate_stream env p = Inr stream
                 \<and> (\<forall>e. Inl e \<notin> set stream)
                 \<and> yields sent = filter (\<lambda>t. t \<noteq> []) (fragments stream)
                 \<and> db0 = db\<lparr>conversation_rows :=
                              (conversation_rows db)
                                (cid \<mapsto> fresh_conv
                                   \<lparr>chat_history :=
                                      h @ [(''gemini'', ''user'', msg),
                                           (''gemini'', ''model'', concat (fragments stream))]\<rparr>)\<rparr>"
    then have "raised0 = None" by blast
    then have "effects = effects0" and "raised = None" and "db' = db0"
      using assms(1) t by (auto simp: generate_tutor_response_def)
    with e0 g0 s show ?thesis by blast
  qed
qed

lemma tutor_view:
  assumes "conversation_rows db cid = Some conv"
    and "conversation_id req = Some id_text \<and> uuid_of env id_text = Inr cid"
  shows "(\<exists>status m before. tutor env req db = (Error_response status m, db, before)
            \<and> status \<in> {400, 404, 500}
            \<and> (before = []
                \<or> falsy (tutor_curriculum conv) \<and> (\<exists>p. before = [Generate (Curriculum_prompt p)])))
       \<or> (\<exists>msg document_context db1 before.
             message req = Some msg \<and> \<not> falsy (doc_hash conv)
             \<and> tutor env req db
                 = streamed before
                     (generate_tutor_response env msg cid (chat_history conv)
                        (filter (\<lambda>item. fst item = ''gemini'') (chat_history conv))
                        document_context db1)
             \<and> ((\<not> falsy (tutor_curriculum conv) \<and> db1 = db \<and> before = [])
                \<or> (falsy (tutor_curriculum conv)
                    \<and> (\<exists>text. before = [Generate (Curriculum_prompt (take 10000 document_context)),
                                         Commit]
                          \<and> db1 = db\<lparr>conversation_rows :=
                                       (conversation_rows db)
                                         (cid \<mapsto> conv\<lparr>tutor_curriculum := Some text\<rparr>)\<rparr>))))"
  using assms
  by (auto simp: tutor_def Let_def missing_fields_def tutor_failed_def
           split: option.splits sum.splits) blast


lemma search_all_effects:
  "search_all env queries web_context = (effects, r) \<Longrightarrow> Commit \<notin> set effects"
  by (induction queries arbitrary: web_context effects r)
     (auto split: sum.splits prod.splits)

lemma deep_dive_try_cases:
  assumes "deep_dive_try env cid conv h document_context db = (effects, raised, db')"
  shows "(db' = db \<and> Commit \<notin> set effects \<and> (\<exists>e. raised = Some e))
       \<or> (\<exists>before p stream sent.
             raised = None \<and> effects = before @ Generate_stream p # sent @ [Commit]
             \<and> Commit \<notin> set before \<and> Commit \<notin> set sent
             \<and> generate_stream env p = Inr stream
             \<and> (\<forall>e. Inl e \<notin> set stream)
             \<and> yields sent = filter (\<lambda>t. t \<noteq> []) (fragments stream)
             \<and> db' = db\<lparr>conversation_rows :=
                          (conversation_rows db)
                            (cid \<mapsto> conv
                               \<lparr>chat_history :=
                                  h @ [(''gemini'', ''user'', ''Deep Dive Analysis''),
                                       (''gemini'', ''model'', concat (fragments stream))]\<rparr>)\<rparr>)"
proof -
  let ?q = "Query_gen_prompt (take 4000 document_context)"
  show ?thesis
  proof (cases "generate_content env ?q")
    case (Inl e)
    with assms show ?thesis by (auto simp: deep_dive_try_def Let_def)
  next
    case (Inr response_text)
    show ?thesis
    proof (cases "json_match response_text")
      case None
      with assms Inr show ?thesis by (auto simp: deep_dive_try_def Let_def)
    next
      case (Some json_str)
      show ?thesis
      proof (cases "json_loads env json_str")
        case (Inl e)
        with assms Inr Some show ?thesis by (auto simp: deep_dive_try_def Let_def)
      next
        case queries: (Inr queries)
        obtain searched r where sa: "search_all env queries [] = (searched, r)"
          by (cases "search_all env queries []")
        note ns = search_all_effects [OF sa]
        show ?thesis
        proof (cases r)
          case (Inl e)
          with assms Inr Some queries sa ns show ?thesis
            by (auto simp: deep_dive_try_def Let_def)
        next
          case web: (Inr web_context)
          let ?before = "Generate ?q
                  # Yield ''Gathering live intelligence from the web...<br>'' # searched
                  @ [Yield ''<br>Synthesizing intelligence brief...<br><br>'']"
          let ?p = "Synthesis_prompt (take 4000 document_context) web_context"
          have nb: "Commit \<notin> set ?before" using ns by simp
          show ?thesis
          proof (cases "generate_stream env ?p")
            case (Inl e)
            with assms Inr Some queries sa ns web show ?thesis
              by (auto simp: deep_dive_try_def Let_def)
          next
            case stream: (Inr stream)
            obtain sent full r2 where c: "consume stream = (sent, full, r2)"
              by (cases "consume stream")
            note s = consume_sent [OF c]
            show ?thesis
            proof (cases r2)
              case (Some e)
              with assms Inr \<open>json_match response_text = Some json_str\<close> queries sa ns web stream c s
              show ?thesis
                by (auto simp: deep_dive_try_def Let_def)
            next
              case None
              note k = consume_complete [OF c [unfolded None]]
              let ?h' = "h @ [(''gemini'', ''user'', ''Deep Dive Analysis''),
                              (''gemini'', ''model'', full)]"
              from persist_turn_cases [OF refl, of env cid conv ?h' db]
              show ?thesis
              proof
                assume "\<exists>e. persist_turn env cid conv ?h' db = Inl e"
                with assms Inr \<open>json_match response_text = Some json_str\<close> queries sa ns web stream
                  c s None
                show ?thesis
                  by (auto simp: deep_dive_try_def Let_def)
              next
                assume w: "persist_turn env cid conv ?h' db
                  = Inr (db\<lparr>conversation_rows :=
                              (conversation_rows db)(cid \<mapsto> conv\<lparr>chat_history := ?h'\<rparr>)\<rparr>)"
                have run: "effects = ?before @ Generate_stream ?p # sent @ [Commit]"
                  "raised = None"
                  "db' = db\<lparr>conversation_rows :=
                              (conversation_rows db)(cid \<mapsto> conv\<lparr>chat_history := ?h'\<rparr>)\<rparr>"
                  using assms Inr \<open>json_match response_text = Some json_str\<close> queries sa web
                    stream c None w
                  by (auto simp: deep_dive_try_def Let_def)
                have "\<exists>before p stream' sent'.
                   raised = None \<and> effects = before @ Generate_stream p # sent' @ [Commit]
                   \<and> Commit \<notin> set before \<and> Commit \<notin> set sent'
                   \<and> generate_stream env p = Inr stream'
                   \<and> (\<forall>e. Inl e \<notin> set stream')
                   \<and> yields sent' = filter (\<lambda>t. t \<noteq> []) (fragments stream')
                   \<and> db' = db\<lparr>conversation_rows :=
                          (conversation_rows db)
                            (cid \<mapsto> conv
                               \<lparr>chat_history :=
                                  h @ [(''gemini'', ''user'', ''Deep Dive Analysis''),
                                       (''gemini'', ''model'', concat (fragments stream'))]\<rparr>)\<rparr>"
                  apply (rule exI [of _ ?before], rule exI [of _ ?p])
                  apply (rule exI [of _ stream], rule exI [of _ sent])
                  using run s k stream nb by simp
                then show ?thesis by blast
              qed
            qed
          qed
        qed
      qed
    qed
  qed
qed

subsection \<open>The handlers of a turn\<close>

lemma tutor_step:
  assumes "conversation_rows db cid = Some conv" and "\<not> falsy (tutor_curriculum conv)"
    and "conversation_id req = Some id_text \<and> uuid_of env id_text = Inr cid"
    and "tutor env req db = (resp, db', effects)"
  shows "(\<forall>q. Generate q \<notin> set effects)
       \<and> (\<exists>conv'. conversation_rows db' cid = Some conv'
              \<and> tutor_curriculum conv' = tutor_curriculum conv)"
proof -
  from tutor_view [OF assms(1,3)] show ?thesis
  proof
    assume "\<exists>status m before. tutor env req db = (Error_response status m, db, before)
            \<and> status \<in> {400, 404, 500}
            \<and> (before = []
                \<or> falsy (tutor_curriculum conv) \<and> (\<exists>p. before = [Generate (Curriculum_prompt p)]))"
    with assms show ?thesis by auto
  next
    assume "\<exists>msg document_context db1 before.
             message req = Some msg \<and> \<not> falsy (doc_hash conv)
             \<and> tutor env req db
                 = streamed before
                     (generate_tutor_response env msg cid (chat_history conv)
                        (filter (\<lambda>item. fst item = ''gemini'') (chat_history conv))
                        document_context db1)
             \<and> ((\<not> falsy (tutor_curriculum conv) \<and> db1 = db \<and> before = [])
                \<or> (falsy (tutor_curriculum conv)
                    \<and> (\<exists>text. before = [Generate (Curriculum_prompt (take 10000 document_context)),
                                         Commit]
                          \<and> db1 = db\<lparr>conversation_rows :=
                                       (conversation_rows db)
                                         (cid \<mapsto> conv\<lparr>tutor_curriculum := Some text\<rparr>)\<rparr>)))"
    then obtain msg document_context db1 before where
      run: "tutor env req db
                 = streamed before
                     (generate_tutor_response env msg cid (chat_history conv)
                        (filter (\<lambda>item. fst item = ''gemini'') (chat_history conv))
                        document_context db1)"
      and alt: "(\<not> falsy (tutor_curriculum conv) \<and> db1 = db \<and> before = [])
                \<or> (falsy (tutor_curriculum conv)
                    \<and> (\<exists>text. before = [Generate (Curriculum_prompt (take 10000 document_context)),
                                         Commit]
                          \<and> db1 = db\<lparr>conversation_rows :=
                                       (conversation_rows db)
                                         (cid \<mapsto> conv\<lparr>tutor_curriculum := Some text\<rparr>)\<rparr>))"
      by blast
    from alt assms(2) have db1: "db1 = db" and before: "before = []" by auto
    obtain effects0 raised0 db0 where
      g: "generate_tutor_response env msg cid (chat_history conv)
            (filter (\<lambda>item. fst item = ''gemini'') (chat_history conv)) document_context db
          = (effects0, raised0, db0)"
      by (cases "generate_tutor_response env msg cid (chat_history conv)
            (filter (\<lambda>item. fst item = ''gemini'') (chat_history conv)) document_context db")
    from run assms(4) g db1 before have out: "db' = db0" "effects = effects0"
      by (auto simp: streamed_def)
    from generate_tutor_response_cases [OF g assms(1) refl] out assms(1)
    show ?thesis by auto
  qed
qed

lemma tutor_session_keeps_curriculum:
  assumes "conversation_rows db cid = Some conv" and "\<not> falsy (tutor_curriculum conv)"
    and "tutor_session calls id_text db = (db', effects)"
    and "\<forall>call\<in>set calls. uuid_of (fst call) id_text = Inr cid"
  shows "(\<forall>q. Generate q \<notin> set effects)
       \<and> (\<exists>conv'. conversation_rows db' cid = Some conv'
              \<and> tutor_curriculum conv' = tutor_curriculum conv)"
  using assms
proof (induction calls arbitrary: db conv effects db')
  case Nil
  then show ?case by simp
next
  case (Cons call calls)
  obtain env msg where call: "call = (env, msg)" by (cases call)
  let ?req = "\<lparr>conversation_id = Some id_text, message = msg\<rparr>"
  obtain resp db1 first where t: "tutor env ?req db = (resp, db1, first)"
    by (cases "tutor env ?req db")
  obtain db2 later where s: "tutor_session calls id_text db1 = (db2, later)"
    by (cases "tutor_session calls id_text db1")
  from Cons.prems(3) call t s have out: "db' = db2" "effects = first @ later"
    by auto
  have named: "conversation_id ?req = Some id_text \<and> uuid_of env id_text = Inr cid"
    using Cons.prems(4) call by simp
  have others: "\<forall>call\<in>set calls. uuid_of (fst call) id_text = Inr cid"
    using Cons.prems(4) by simp
  from tutor_step [OF Cons.prems(1,2) named t]
  obtain conv1 where c1: "conversation_rows db1 cid = Some conv1"
    and k1: "tutor_curriculum conv1 = tutor_curriculum conv"
    and g1: "\<forall>q. Generate q \<notin> set first"
    by auto
  from Cons.prems(2) k1 have "\<not> falsy (tutor_curriculum conv1)" by simp
  from Cons.IH [OF c1 this s others] k1 g1 out show ?case by auto
qed

lemma generate_deep_dive_response_cases:
  assumes "generate_deep_dive_response env cid conv h document_context db = (effects, raised, db')"
  shows "raised = None
       \<and> ((db' = db \<and> Commit \<notin> set effects
            \<and> (\<exists>e before. effects = before @ [Yield (deep_dive_error_text e)]))
          \<or> (\<exists>before p stream sent.
               effects = before @ Generate_stream p # sent @ [Commit]
               \<and> Commit \<notin> set before \<and> Commit \<notin> set sent
               \<and> generate_stream env p = Inr stream
               \<and> (\<forall>e. Inl e \<notin> set stream)
               \<and> yields sent = filter (\<lambda>t. t \<noteq> []) (fragments stream)
               \<and> db' = db\<lparr>conversation_rows :=
                            (conversation_rows db)
                              (cid \<mapsto> conv
                                 \<lparr>chat_history :=
                                    h @ [(''gemini'', ''user'', ''Deep Dive Analysis''),
                                         (''gemini'', ''model'', concat (fragments stream))]\<rparr>)\<rparr>))"
proof -
  obtain effects0 raised0 db0 where
    t: "deep_dive_try env cid conv h document_context db = (effects0, raised0, db0)"
    by (cases "deep_dive_try env cid conv h document_context db")
  from deep_dive_try_cases [OF t] show ?thesis
  proof
    assume f: "db0 = db \<and> Commit \<notin> set effects0 \<and> (\<exists>e. raised0 = Some e)"
    then obtain e where e: "raised0 = Some e" by blast
    have "effects = effects0 @ [Yield (deep_dive_error_text e)]" and "raised = None" and "db' = db"
      using assms t e f by (auto simp: generate_deep_dive_response_def)
    with f show ?thesis by auto
  next
    assume s: "\<exists>before p stream sent.
             raised0 = None \<and> effects0 = before @ Generate_stream p # sent @ [Commit]
             \<and> Commit \<notin> set before \<and> Commit \<notin> set sent
             \<and> generate_stream env p = Inr stream
             \<and> (\<forall>e. Inl e \<notin> set stream)
             \<and> yields sent = filter (\<lambda>t. t \<noteq> []) (fragments stream)
             \<and> db0 = db\<lparr>conversation_rows :=
                          (conversation_rows db)
                            (cid \<mapsto> conv
                               \<lparr>chat_history :=
                                  h @ [(''gemini'', ''user'', ''Deep Dive Analysis''),
                                       (''gemini'', ''model'', concat (fragments stream))]\<rparr>)\<rparr>"
    then have "raised0 = None" by blast
    then have "effects = effects0" and "raised = None" and "db' = db0"
      using assms t by (auto simp: generate_deep_dive_response_def)
    with s show ?thesis by blast
  qed
qed

lemma chat_view:
  assumes "conversation_rows db cid = Some conv"
    and "conversation_id req = Some id_text \<and> uuid_of env id_text = Inr cid"
  shows "(\<exists>status m before. chat env req db = (Error_response status m, db, before)
            \<and> Commit \<notin> set before)
       \<or> (\<exists>msg. message req = Some msg \<and> falsy (doc_hash conv)
             \<and> chat env req db
                 = streamed [] (generate_general env msg cid conv (chat_history conv) db))
       \<or> (\<exists>msg index. message req = Some msg \<and> \<not> falsy (doc_hash conv)
             \<and> chat env req db
                 = streamed [Load_index]
                     (generate_doc_chat env index msg
                        (langchain_history_format (chat_history conv)) cid conv
                        (chat_history conv) db))"
  using assms
  by (auto simp: chat_def Let_def missing_fields_def chat_failed_def split: option.splits)

lemma deep_dive_view:
  assumes "conversation_rows db cid = Some conv"
    and "conversation_id req = Some id_text \<and> uuid_of env id_text = Inr cid"
  shows "(\<exists>status m. deep_dive env req db = (Error_response status m, db, []))
       \<or> (\<exists>document_context.
             \<not> falsy (doc_hash conv)
             \<and> deep_dive env req db
                 = streamed []
                     (generate_deep_dive_response env cid conv (chat_history conv)
                        document_context db))"
  using assms
  by (auto simp: deep_dive_def Let_def deep_dive_failed_def split: option.splits sum.splits)




lemma tutor_run:
  assumes "conversation_rows db cid = Some conv"
    and "conversation_id req = Some id_text \<and> uuid_of env id_text = Inr cid"
    and "tutor env req db = (resp, db', effects)"
  shows "(\<exists>status m. resp = Error_response status m \<and> db' = db)
       \<or> (\<exists>msg conv1 db1 before p rest.
             message req = Some msg \<and> \<not> falsy (doc_hash conv)
             \<and> conversation_rows db1 cid = Some conv1
             \<and> chat_history conv1 = chat_history conv
             \<and> (\<exists>first snippet.
                   p = Tutor_prompt first (tutor_curriculum conv1)
                         (filter (\<lambda>item. fst item = ''gemini'') (chat_history conv)) snippet msg)
             \<and> effects = before @ Generate_stream p # rest
             \<and> resp = Streamed (yields rest) None
             \<and> ((db' = db1 \<and> Commit \<notin> set rest
                  \<and> (\<exists>e pre. rest = pre @ [Yield (tutor_error_text e)]))
                \<or> (\<exists>stream sent.
                     rest = sent @ [Commit] \<and> Commit \<notin> set sent
                     \<and> generate_stream env p = Inr stream
                     \<and> (\<forall>e. Inl e \<notin> set stream)
                     \<and> yields sent = filter (\<lambda>t. t \<noteq> []) (fragments stream)
                     \<and> db' = db1\<lparr>conversation_rows :=
                                  (conversation_rows db1)
                                    (cid \<mapsto> conv1
                                       \<lparr>chat_history :=
                                          chat_history conv
                                          @ [(''gemini'', ''user'', msg),
                                             (''gemini'', ''model'', concat (fragments stream))]\<rparr>)\<rparr>)))"
proof -
  from tutor_view [OF assms(1,2)] show ?thesis
  proof
    assume "\<exists>status m before. tutor env req db = (Error_response status m, db, before)
            \<and> status \<in> {400, 404, 500}
            \<and> (before = []
                \<or> falsy (tutor_curriculum conv) \<and> (\<exists>p. before = [Generate (Curriculum_prompt p)]))"
    with assms show ?thesis by auto
  next
    assume "\<exists>msg document_context db1 before.
             message req = Some msg \<and> \<not> falsy (doc_hash conv)
             \<and> tutor env req db
                 = streamed before
                     (generate_tutor_response env msg cid (chat_history conv)
                        (filter (\<lambda>item. fst item = ''gemini'') (chat_history conv))
                        document_context db1)
             \<and> ((\<not> falsy (tutor_curriculum conv) \<and> db1 = db \<and> before = [])
                \<or> (falsy (tutor_curriculum conv)
                    \<and> (\<exists>text. before = [Generate (Curriculum_prompt (take 10000 document_context)),
                                         Commit]
                          \<and> db1 = db\<lparr>conversation_rows :=
                                       (conversation_rows db)
                                         (cid \<mapsto> conv\<lparr>tutor_curriculum := Some text\<rparr>)\<rparr>)))"
    then obtain msg document_context db1 before where
      msg: "message req = Some msg" and doc: "\<not> falsy (doc_hash conv)"
      and run: "tutor env req db
                 = streamed before
                     (generate_tutor_response env msg cid (chat_history conv)
                        (filter (\<lambda>item. fst item = ''gemini'') (chat_history conv))
                        document_context db1)"
      and alt: "(\<not> falsy (tutor_curriculum conv) \<and> db1 = db \<and> before = [])
                \<or> (falsy (tutor_curriculum conv)
                    \<and> (\<exists>text. before = [Generate (Curriculum_prompt (take 10000 document_context)),
                                         Commit]
                          \<and> db1 = db\<lparr>conversation_rows :=
                                       (conversation_rows db)
                                         (cid \<mapsto> conv\<lparr>tutor_curriculum := Some text\<rparr>)\<rparr>))"
      by blast
    from alt assms(1) obtain conv1 where
      c1: "conversation_rows db1 cid = Some conv1" and h1: "chat_history conv1 = chat_history conv"
      by auto
    let ?gh = "filter (\<lambda>item. fst item = ''gemini'') (chat_history conv)"
    let ?p = "Tutor_prompt (\<not> list_ex (\<lambda>item. fst item = ''gemini'') (chat_history conv))
                (tutor_curriculum conv1) ?gh (take 4000 document_context) msg"
    obtain effects0 raised0 db0 where
      g: "generate_tutor_response env msg cid (chat_history conv) ?gh document_context db1
          = (effects0, raised0, db0)"
      by (cases "generate_tutor_response env msg cid (chat_history conv) ?gh document_context db1")
    from run assms(3) g have out: "resp = Streamed (yields effects0) raised0" "db' = db0"
      "effects = before @ effects0"
      by (auto simp: streamed_def)
    from generate_tutor_response_cases [OF g c1 refl] obtain rest where
      r: "raised0 = None" "effects0 = Generate_stream ?p # rest"
      and cases: "(db0 = db1 \<and> Commit \<notin> set rest
              \<and> (\<exists>e before. rest = before @ [Yield (tutor_error_text e)]))
            \<or> (\<exists>stream sent.
                 rest = sent @ [Commit] \<and> Commit \<notin> set sent
                 \<and> generate_stream env ?p = Inr stream
                 \<and> (\<forall>e. Inl e \<notin> set stream)
                 \<and> yields sent = filter (\<lambda>t. t \<noteq> []) (fragments stream)
                 \<and> db0 = db1\<lparr>conversation_rows :=
                              (conversation_rows db1)
                                (cid \<mapsto> conv1
                                   \<lparr>chat_history :=
                                      chat_history conv
                                      @ [(''gemini'', ''user'', msg),
                                         (''gemini'', ''model'', concat (fragments stream))]\<rparr>)\<rparr>)"
      by blast
    have "message req = Some msg \<and> \<not> falsy (doc_hash conv)
             \<and> conversation_rows db1 cid = Some conv1
             \<and> chat_history conv1 = chat_history conv
             \<and> (\<exists>first snippet.
                   ?p = Tutor_prompt first (tutor_curriculum conv1) ?gh snippet msg)
             \<and> effects = before @ Generate_stream ?p # rest
             \<and> resp = Streamed (yields rest) None
             \<and> ((db' = db1 \<and> Commit \<notin> set rest
                  \<and> (\<exists>e pre. rest = pre @ [Yield (tutor_error_text e)]))
                \<or> (\<exists>stream sent.
                     rest = sent @ [Commit] \<and> Commit \<notin> set sent
                     \<and> generate_stream env ?p = Inr stream
                     \<and> (\<forall>e. Inl e \<notin> set stream)
                     \<and> yields sent = filter (\<lambda>t. t \<noteq> []) (fragments stream)
                     \<and> db' = db1\<lparr>conversation_rows :=
                                  (conversation_rows db1)
                                    (cid \<mapsto> conv1
                                       \<lparr>chat_history :=
                                          chat_history conv
                                          @ [(''gemini'', ''user'', msg),
                                             (''gemini'', ''model'', concat (fragments stream))]\<rparr>)\<rparr>))"
      using msg doc c1 h1 out r cases by simp
    then show ?thesis by blast
  qed
qed

lemma deep_dive_run:
  assumes "conversation_rows db cid = Some conv"
    and "conversation_id req = Some id_text \<and> uuid_of env id_text = Inr cid"
    and "deep_dive env req db = (resp, db', effects)"
  shows "(\<exists>status m. resp = Error_response status m \<and> db' = db)
       \<or> (resp = Streamed (yields effects) None
           \<and> ((db' = db \<and> Commit \<notin> set effects
                \<and> (\<exists>e pre. effects = pre @ [Yield (deep_dive_error_text e)]))
              \<or> (\<exists>before p stream sent.
                   effects = before @ Generate_stream p # sent @ [Commit]
                   \<and> Commit \<notin> set before \<and> Commit \<notin> set sent
                   \<and> generate_stream env p = Inr stream
                   \<and> (\<forall>e. Inl e \<notin> set stream)
                   \<and> yields sent = filter (\<lambda>t. t \<noteq> []) (fragments stream)
                   \<and> db' = db\<lparr>conversation_rows :=
                                (conversation_rows db)
                                  (cid \<mapsto> conv
                                     \<lparr>chat_history :=
                                        chat_history conv
                                        @ [(''gemini'', ''user'', ''Deep Dive Analysis''),
                                           (''gemini'', ''model'', concat (fragments stream))]\<rparr>)\<rparr>)))"
proof -
  from deep_dive_view [OF assms(1,2)] show ?thesis
  proof
    assume "\<exists>status m. deep_dive env req db = (Error_response status m, db, [])"
    with assms show ?thesis by auto
  next
    assume "\<exists>document_context.
             \<not> falsy (doc_hash conv)
             \<and> deep_dive env req db
                 = streamed []
                     (generate_deep_dive_response env cid conv (chat_history conv)
                        document_context db)"
    then obtain document_context where
      run: "deep_dive env req db
            = streamed []
                (generate_deep_dive_response env cid conv (chat_history conv) document_context db)"
      by blast
    obtain effects0 raised0 db0 where
      g: "generate_deep_dive_response env cid conv (chat_history conv) document_context db
          = (effects0, raised0, db0)"
      by (cases "generate_deep_dive_response env cid conv (chat_history conv) document_context db")
    from run assms(3) g have out: "resp = Streamed (yields effects0) raised0" "db' = db0"
      "effects = effects0"
      by (auto simp: streamed_def)
    from generate_deep_dive_response_cases [OF g] out show ?thesis
      by simp
  qed
qed



lemma guarded_streams_end_normally:
  assumes "conversation_rows db cid = Some conv"
    and "conversation_id req = Some id_text \<and> uuid_of env id_text = Inr cid"
    and "handler = tutor \<or> handler = deep_dive"
    and "handler env req db = (Streamed sent raised, db', effects)"
  shows "raised = None"
  using assms(3)
proof
  assume "handler = tutor"
  with assms(4) have "tutor env req db = (Streamed sent raised, db', effects)" by simp
  from tutor_run [OF assms(1,2) this] show ?thesis by auto
next
  assume "handler = deep_dive"
  with assms(4) have "deep_dive env req db = (Streamed sent raised, db', effects)" by simp
  from deep_dive_run [OF assms(1,2) this] show ?thesis by auto
qed

subsection \<open>Ingestion\<close>

text \<open>
  C5. An upload that finds no record under the digest of its file, and whose extracted
  text is empty or has fewer than 50 characters once stripped, is answered with the
  status 400 and the message of \<^verbatim>\<open>no_text_message\<close>; the database is the one before
  the request, so no document record, chunk list or index is stored, and extraction is
  the only effect: nothing is chunked or embedded.
\<close>

theorem upload_rejects_unreadable_document:
  assumes "file_part req = Some (name, file_content)" and "name \<noteq> []"
    and "document_rows db (md5_hexdigest env file_content) = None"
    and "length (strip (get_document_text env (secure_filename env name) file_content)) < 50"
  shows "upload env req db = (Error_response 400 no_text_message, db, [Extract_text])"
  using assms by (simp add: upload_def ingest_def)

theorem upload_rejects_unreadable_document_witness:
  "length (get_document_text env0 ''a.pdf'' ''12345678'') = 10
   \<and> upload env0 short_upload empty_db
       = (Error_response 400 no_text_message, empty_db, [Extract_text])"
proof -
  have len: "length (get_document_text env0 ''a.pdf'' ''12345678'') = 10"
    by (simp add: short_upload_text backslash_n_def)
  have "length (strip (get_document_text env0 ''a.pdf'' ''12345678'')) < 50"
    using length_strip_le [of "get_document_text env0 ''a.pdf'' ''12345678''"] len by simp
  then have "length (strip (get_document_text env0 (secure_filename env0 ''a.pdf'') ''12345678''))
             < 50"
    by (simp add: env0_def)
  then have "upload env0 short_upload empty_db
             = (Error_response 400 no_text_message, empty_db, [Extract_text])"
    by (intro upload_rejects_unreadable_document [of short_upload "''a.pdf''" "''12345678''"])
       (simp_all add: short_upload_def empty_db_def)
  with len show ?thesis by simp
qed

subsection \<open>The cases of upload\<close>

lemma ingest_cases:
  assumes "ingest env filename file_content h db = Inr (docs, effects)"
  shows "(\<exists>d. docs h = Some d) \<and> (\<forall>k. k \<noteq> h \<longrightarrow> docs k = document_rows db k)
         \<and> set effects \<subseteq> {Extract_text, Split_text, Build_index}"
  using assms
  by (auto simp: ingest_def Let_def split: option.splits if_splits sum.splits)

lemma ingest_hit:
  assumes "document_rows db h = Some d"
  shows "ingest env filename file_content h db = Inr (document_rows db, [])"
  using assms by (simp add: ingest_def)

lemma attach_cases:
  assumes "attach env filename h header docs effects db = (resp, db', effects')"
  shows "(db' = db \<and> effects' = effects \<and> (\<exists>m. resp = Error_response 500 m))
       \<or> (\<exists>id_text k conv.
             header = Some id_text \<and> id_text \<noteq> [] \<and> uuid_of env id_text = Inr k
             \<and> conversation_rows db k = Some conv
             \<and> resp = File_processed k \<and> effects' = effects @ [Commit]
             \<and> db' = \<lparr>document_rows = docs,
                       conversation_rows =
                         (conversation_rows db)(k \<mapsto> conv\<lparr>doc_hash := Some h, title := filename\<rparr>)\<rparr>)
       \<or> ((header = None \<or> header = Some []
            \<or> (\<exists>id_text k. header = Some id_text \<and> uuid_of env id_text = Inr k
                    \<and> conversation_rows db k = None))
             \<and> conversation_rows db (uuid4 env) = None
             \<and> resp = File_processed (uuid4 env) \<and> effects' = effects @ [Commit]
             \<and> db' = \<lparr>document_rows = docs,
                       conversation_rows =
                         (conversation_rows db)
                           (uuid4 env \<mapsto> new_conversation env filename h)\<rparr>)"
  using assms
  by (auto simp: attach_def Let_def upload_failed_def split: option.splits if_splits sum.splits)


lemma upload_cases:
  assumes "upload env req db = (resp, db', effects)"
  shows "(db' = db \<and> Commit \<notin> set effects \<and> (\<exists>status m. resp = Error_response status m \<and> status \<in> {400, 500}))
       \<or> (\<exists>name file_content docs before.
             file_part req = Some (name, file_content) \<and> name \<noteq> []
             \<and> ingest env (secure_filename env name) file_content (md5_hexdigest env file_content) db
                 = Inr (docs, before)
             \<and> attach env (secure_filename env name) (md5_hexdigest env file_content)
                   (x_conversation_id req) docs before db = (resp, db', effects)
             \<and> effects = before @ [Commit]
             \<and> (\<exists>k. resp = File_processed k))"
proof (cases "file_part req")
  case None
  with assms show ?thesis by (auto simp: upload_def)
next
  case (Some f)
  obtain name file_content where f: "f = (name, file_content)" by (cases f)
  show ?thesis
  proof (cases "name = []")
    case True
    with assms Some f show ?thesis by (auto simp: upload_def)
  next
    case False
    let ?fn = "secure_filename env name" and ?h = "md5_hexdigest env file_content"
    show ?thesis
    proof (cases "ingest env ?fn file_content ?h db")
      case (Inl a)
      obtain r es where a: "a = (r, es)" by (cases a)
      have "Commit \<notin> set es \<and> (\<exists>status m. r = Error_response status m \<and> status \<in> {400, 500})"
        using Inl a
        by (auto simp: ingest_def Let_def upload_failed_def split: option.splits if_splits sum.splits)
      with assms Some f False Inl a show ?thesis
        by (auto simp: upload_def Let_def)
    next
      case (Inr b)
      obtain docs before where b: "b = (docs, before)" by (cases b)
      have att: "attach env ?fn ?h (x_conversation_id req) docs before db = (resp, db', effects)"
        using assms Some f False Inr b by (simp add: upload_def Let_def)
      have nc: "Commit \<notin> set before"
        using ingest_cases [OF Inr [unfolded b]] by auto
      from attach_cases [OF att]
      have "(db' = db \<and> effects = before \<and> (\<exists>m. resp = Error_response 500 m))
            \<or> (effects = before @ [Commit] \<and> (\<exists>k. resp = File_processed k))"
        by auto
      then show ?thesis
      proof
        assume "db' = db \<and> effects = before \<and> (\<exists>m. resp = Error_response 500 m)"
        with nc show ?thesis by auto
      next
        assume "effects = before @ [Commit] \<and> (\<exists>k. resp = File_processed k)"
        with Some f False Inr b att show ?thesis by auto
      qed
    qed
  qed
qed

lemma upload_never_not_found: "fst (upload env req db) \<noteq> Error_response 404 m"
proof -
  obtain resp db' effects where run: "upload env req db = (resp, db', effects)"
    by (cases "upload env req db")
  from upload_cases [OF run] have "resp \<noteq> Error_response 404 m"
    by auto
  with run show ?thesis by simp
qed

lemma upload_accepted:
  assumes "upload env req db = (File_processed c, db', effects)"
    and "file_part req = Some (name, file_content)"
  shows "(\<exists>d. document_rows db' (md5_hexdigest env file_content) = Some d)
       \<and> (\<forall>k. k \<noteq> md5_hexdigest env file_content \<longrightarrow> document_rows db' k = document_rows db k)
       \<and> (\<exists>conv. conversation_rows db' c = Some conv
                 \<and> doc_hash conv = Some (md5_hexdigest env file_content))"
proof -
  from upload_cases [OF assms(1)] assms(2)
  obtain docs before where
    ing: "ingest env (secure_filename env name) file_content (md5_hexdigest env file_content) db
          = Inr (docs, before)"
    and att: "attach env (secure_filename env name) (md5_hexdigest env file_content)
                (x_conversation_id req) docs before db = (File_processed c, db', effects)"
    by auto
  from attach_cases [OF att] have "document_rows db' = docs
      \<and> (\<exists>conv. conversation_rows db' c = Some conv
                 \<and> doc_hash conv = Some (md5_hexdigest env file_content))"
    by (elim disjE) (auto simp: new_conversation_def)
  with ingest_cases [OF ing] show ?thesis by auto
qed

lemma upload_cache_hit:
  assumes "file_part req = Some (name, file_content)" and "name \<noteq> []"
    and "document_rows db (md5_hexdigest env file_content) = Some d"
    and "upload env req db = (resp, db', effects)"
  shows "document_rows db' = document_rows db \<and> set effects \<subseteq> {Commit}
       \<and> ((\<exists>c. resp = File_processed c) \<or> (\<exists>m. resp = Error_response 500 m))"
proof -
  let ?fn = "secure_filename env name" and ?h = "md5_hexdigest env file_content"
  have att: "attach env ?fn ?h (x_conversation_id req) (document_rows db) [] db
             = (resp, db', effects)"
    using assms by (simp add: upload_def Let_def ingest_hit)
  from attach_cases [OF att] show ?thesis
    by (elim disjE) auto
qed

lemmas upload_defs =
  upload_def ingest_def attach_def get_document_text_def pdf_text_def add_lines_def lower_def
  splitext_ext_def lower_char_def strip_def isspace_def backslash_n_def upload_failed_def
  no_text_message_def Let_def

lemma good_ingest:
  "ingest env0 ''a.pdf'' long_content digest0 empty_db
   = Inr (stored_docs, [Extract_text, Split_text, Build_index])"
  by (simp add: upload_defs env0_def empty_db_def stored_docs_def long_content_def digest0_def)

subsection \<open>The ids of the scenarios\<close>

lemma read_first_id: "read_uuid first_id = Inr first_id"
  by code_simp

lemma read_stale_id: "read_uuid stale_id = Inr stale_id"
  by code_simp

lemma read_malformed_id:
  "read_uuid ''no such conversation'' = Inl (DataError ''invalid input syntax for type uuid'')"
  by code_simp

lemma first_id_nonempty: "first_id \<noteq> []"
  by code_simp

subsection \<open>Attaching a document to an existing conversation\<close>

text \<open>
  C9. An upload whose header names a stored conversation (the header is not empty and
  reads as the id of a stored row) either leaves the conversation
  table as it was, or succeeds and replaces \<^verbatim>\<open>doc_hash\<close> and \<^verbatim>\<open>title\<close> in the row of that
  conversation. In both cases the row stays under its id with the same creation time,
  history and curriculum, whatever document it was bound to before, and every other
  row is untouched.
\<close>

theorem upload_attach_frame:
  assumes "conversation_rows db cid = Some conv"
    and "x_conversation_id req = Some id_text" and "id_text \<noteq> []"
    and "uuid_of env id_text = Inr cid"
    and "upload env req db = (resp, db', effects)"
  shows "(conversation_rows db' = conversation_rows db
          \<or> (\<exists>name file_content.
                file_part req = Some (name, file_content) \<and> resp = File_processed cid
                \<and> conversation_rows db'
                    = (conversation_rows db)
                        (cid \<mapsto> conv\<lparr>doc_hash := Some (md5_hexdigest env file_content),
                                     title := secure_filename env name\<rparr>)))
       \<and> (\<exists>conv'. conversation_rows db' cid = Some conv'
             \<and> created_at conv' = created_at conv
             \<and> chat_history conv' = chat_history conv
             \<and> tutor_curriculum conv' = tutor_curriculum conv)
       \<and> (\<forall>k. k \<noteq> cid \<longrightarrow> conversation_rows db' k = conversation_rows db k)"
proof -
  from upload_cases [OF assms(5)] show ?thesis
  proof (elim disjE exE conjE)
    assume "db' = db"
    with assms(1) show ?thesis by auto
  next
    fix name file_content docs before k
    assume fp: "file_part req = Some (name, file_content)"
      and att: "attach env (secure_filename env name) (md5_hexdigest env file_content)
                   (x_conversation_id req) docs before db = (resp, db', effects)"
      and ok: "resp = File_processed k"
    from attach_cases [OF att] ok assms(1,2,3,4) fp show ?thesis
      by (elim disjE) auto
  qed
qed

theorem upload_attach_frame_witness:
  "fst (upload env0 rebind_upload tutored_db) = File_processed first_id
   \<and> doc_hash tutored_conv \<noteq> Some (md5_hexdigest env0 other_content)
   \<and> (\<exists>conv'. conversation_rows (fst (snd (upload env0 rebind_upload tutored_db)))
                  first_id = Some conv'
          \<and> doc_hash conv' = Some (md5_hexdigest env0 other_content)
          \<and> title conv' = ''b.docx''
          \<and> created_at conv' = created_at tutored_conv
          \<and> chat_history conv' = chat_history tutored_conv
          \<and> tutor_curriculum conv' = tutor_curriculum tutored_conv)"
proof -
  let ?run = "upload env0 rebind_upload tutored_db"
  have run: "?run = (fst ?run, fst (snd ?run), snd (snd ?run))"
    by simp
  have row: "conversation_rows tutored_db first_id = Some tutored_conv"
    by (simp add: tutored_db_def)
  have header: "x_conversation_id rebind_upload = Some first_id"
    by (simp add: rebind_upload_def)
  have named: "uuid_of env0 first_id = Inr first_id"
    by (simp add: env0_def read_first_id)
  note nonempty = first_id_nonempty
  have "\<exists>conv'. conversation_rows (fst (snd ?run)) first_id = Some conv'
          \<and> created_at conv' = created_at tutored_conv
          \<and> chat_history conv' = chat_history tutored_conv
          \<and> tutor_curriculum conv' = tutor_curriculum tutored_conv"
    using upload_attach_frame [OF row header nonempty named run] by simp
  then obtain conv' where kept:
    "conversation_rows (fst (snd ?run)) first_id = Some conv'"
    "created_at conv' = created_at tutored_conv"
    "chat_history conv' = chat_history tutored_conv"
    "tutor_curriculum conv' = tutor_curriculum tutored_conv"
    by blast
  have served: "fst ?run = File_processed first_id"
    by code_simp
  have bound: "conversation_rows (fst (snd ?run)) first_id
      = Some (tutored_conv\<lparr>doc_hash := Some (md5_hexdigest env0 other_content),
                           title := ''b.docx''\<rparr>)"
    by code_simp
  have differs: "doc_hash tutored_conv \<noteq> Some (md5_hexdigest env0 other_content)"
    by code_simp
  from kept bound have "doc_hash conv' = Some (md5_hexdigest env0 other_content)"
    and "title conv' = ''b.docx''"
    by auto
  with kept served differs show ?thesis by blast
qed

subsection \<open>Uploading the same bytes twice\<close>

text \<open>
  The claim C1 as stated, that any byte string uploaded twice leaves exactly one document
  record and costs no extraction the second time, fails for a file that is rejected:
  after two uploads of the ten-character PDF no record exists under its digest, and the
  second upload extracts text again.
\<close>

theorem upload_twice_unreadable:
  "document_rows
     (fst (snd (upload env0 short_upload (fst (snd (upload env0 short_upload empty_db))))))
     (md5_hexdigest env0 ''12345678'') = None
   \<and> snd (snd (upload env0 short_upload (fst (snd (upload env0 short_upload empty_db)))))
     = [Extract_text]"
  by code_simp

text \<open>
  C1, amended. When an upload of a byte string has been accepted, a record exists under
  its digest and no other key of the document table has changed; a later upload of the
  same bytes, under any file name and header, takes the branch of the cache hit: it
  leaves the document table as it is, extracts, chunks and embeds nothing (a commit is
  its only possible effect), is not rejected as unreadable, and the conversation it
  answers with is bound to the same digest as the conversation of the first upload.
  The response of \<^verbatim>\<open>upload\<close> carries the conversation id; the digest is read from the
  row of that conversation.
\<close>

theorem upload_idempotent:
  assumes "upload env_a req1 db0 = (File_processed c1, db1, effects1)"
    and "file_part req1 = Some (name1, file_content)"
    and "file_part req2 = Some (name2, file_content)" and "name2 \<noteq> []"
    and "md5_hexdigest env_b = md5_hexdigest env_a"
    and "upload env_b req2 db1 = (resp2, db2, effects2)"
  shows "(\<exists>d. document_rows db1 (md5_hexdigest env_a file_content) = Some d)
       \<and> (\<forall>k. k \<noteq> md5_hexdigest env_a file_content \<longrightarrow> document_rows db1 k = document_rows db0 k)
       \<and> document_rows db2 = document_rows db1
       \<and> set effects2 \<subseteq> {Commit}
       \<and> ((\<exists>c2. resp2 = File_processed c2) \<or> (\<exists>m. resp2 = Error_response 500 m))
       \<and> (\<exists>conv. conversation_rows db1 c1 = Some conv
                 \<and> doc_hash conv = Some (md5_hexdigest env_a file_content))
       \<and> (\<forall>c2. resp2 = File_processed c2 \<longrightarrow>
             (\<exists>conv. conversation_rows db2 c2 = Some conv
                    \<and> doc_hash conv = Some (md5_hexdigest env_a file_content)))"
proof -
  note first = upload_accepted [OF assms(1,2)]
  then obtain d where d: "document_rows db1 (md5_hexdigest env_b file_content) = Some d"
    using assms(5) by auto
  note second = upload_cache_hit [OF assms(3,4) d assms(6)]
  have third: "\<forall>c2. resp2 = File_processed c2 \<longrightarrow>
             (\<exists>conv. conversation_rows db2 c2 = Some conv
                    \<and> doc_hash conv = Some (md5_hexdigest env_a file_content))"
    using upload_accepted [OF _ assms(3), of env_b db1 _ db2 effects2] assms(5,6) by auto
  from first second third show ?thesis by simp
qed

theorem upload_idempotent_witness:
  "fst (upload env0 good_upload empty_db) = File_processed first_id
   \<and> fst (upload env1 again_upload (fst (snd (upload env0 good_upload empty_db))))
     = File_processed second_id
   \<and> snd (snd (upload env1 again_upload (fst (snd (upload env0 good_upload empty_db)))))
     = [Commit]
   \<and> document_rows (fst (snd (upload env1 again_upload (fst (snd (upload env0 good_upload empty_db))))))
     = document_rows (fst (snd (upload env0 good_upload empty_db)))"
proof -
  let ?run1 = "upload env0 good_upload empty_db"
  let ?run2 = "upload env1 again_upload (fst (snd ?run1))"
  have served1: "fst ?run1 = File_processed first_id"
    by code_simp
  have served2: "fst ?run2 = File_processed second_id"
    by code_simp
  have effects2: "snd (snd ?run2) = [Commit]"
    by code_simp
  have run1: "?run1 = (File_processed first_id, fst (snd ?run1), snd (snd ?run1))"
    using served1 by (metis prod.collapse)
  have run2: "?run2 = (fst ?run2, fst (snd ?run2), snd (snd ?run2))"
    by simp
  have "document_rows (fst (snd ?run2)) = document_rows (fst (snd ?run1))"
    using upload_idempotent [OF run1 _ _ _ _ run2, of "''a.pdf''" long_content "''copy.pdf''"]
    by (simp add: good_upload_def again_upload_def env1_def env0_def)
  with served1 served2 effects2 show ?thesis by simp
qed

subsection \<open>Uploads without a known conversation\<close>

text \<open>
  A header that is not a UUID creates no conversation: the query of line 442 raises
  on it, since the column is \<^verbatim>\<open>UUID(as_uuid=True)\<close> (line 66), and the handler
  answers 500 after a rollback, whether a record had to be built or not.
\<close>

lemma upload_malformed_header:
  assumes "file_part req = Some (name, file_content)" and "name \<noteq> []"
    and "x_conversation_id req = Some id_text" and "id_text \<noteq> []"
    and "uuid_of env id_text = Inl e"
  shows "fst (upload env req db) \<noteq> File_processed k"
    and "fst (snd (upload env req db)) = db"
    and "ingest env (secure_filename env name) file_content (md5_hexdigest env file_content) db
         = Inr (docs, before)
         \<Longrightarrow> upload env req db = (upload_failed e, db, before)"
proof -
  obtain resp db' effects where run: "upload env req db = (resp, db', effects)"
    by (cases "upload env req db")
  from upload_cases [OF run]
  have "db' = db \<and> (\<forall>k. resp \<noteq> File_processed k)"
  proof (elim disjE exE conjE)
    fix docs0 before0 k0 name0 content0
    assume fp: "file_part req = Some (name0, content0)"
      and att: "attach env (secure_filename env name0) (md5_hexdigest env content0)
                  (x_conversation_id req) docs0 before0 db = (resp, db', effects)"
      and ok: "resp = File_processed k0"
    from att assms(3,4,5) ok show ?thesis
      by (simp add: attach_def upload_failed_def)
  qed auto
  with run show "fst (upload env req db) \<noteq> File_processed k"
    and "fst (snd (upload env req db)) = db"
    by simp_all
  show "upload env req db = (upload_failed e, db, before)"
    if "ingest env (secure_filename env name) file_content (md5_hexdigest env file_content) db
        = Inr (docs, before)"
    using that assms by (simp add: upload_def attach_def)
qed

lemma malformed_upload_run:
  "upload env0 malformed_upload empty_db
   = (upload_failed (DataError ''invalid input syntax for type uuid''), empty_db,
      [Extract_text, Split_text, Build_index])"
  using upload_malformed_header(3)
          [of malformed_upload "''a.pdf''" long_content "''no such conversation''" env0
              "DataError ''invalid input syntax for type uuid''" empty_db stored_docs
              "[Extract_text, Split_text, Build_index]"]
        good_ingest
  by (simp add: malformed_upload_def env0_def digest0_def read_malformed_id)

text \<open>
  The claim C10 as stated, that every upload without a matching header creates a fresh
  conversation, fails for a file that ingestion rejects: nothing is created. It also
  fails for a readable file sent with a header that is not a UUID, which matches no
  stored conversation: the answer is 500 and nothing is created.
\<close>

theorem upload_unreadable_creates_nothing:
  "x_conversation_id short_upload = None
   \<and> fst (upload env0 short_upload empty_db) = Error_response 400 no_text_message
   \<and> conversation_rows (fst (snd (upload env0 short_upload empty_db))) (uuid4 env0) = None
   \<and> x_conversation_id malformed_upload = Some ''no such conversation''
   \<and> (\<exists>m. fst (upload env0 malformed_upload empty_db) = Error_response 500 m)
   \<and> fst (snd (upload env0 malformed_upload empty_db)) = empty_db"
proof -
  have "x_conversation_id short_upload = None
        \<and> fst (upload env0 short_upload empty_db) = Error_response 400 no_text_message
        \<and> conversation_rows (fst (snd (upload env0 short_upload empty_db))) (uuid4 env0)
            = None"
    by code_simp
  moreover have "x_conversation_id malformed_upload = Some ''no such conversation''"
    by (simp add: malformed_upload_def)
  ultimately show ?thesis
    using malformed_upload_run by (simp add: upload_failed_def)
qed

text \<open>
  C10, amended. \<^verbatim>\<open>upload\<close> never answers 404. When the request carries a named file
  that ingestion accepts (its record exists or is built), and its header is absent,
  empty or reads as a UUID that is the id of no stored conversation, then, the
  generated id being unused and the commit accepted, the upload stores a new
  conversation under the generated id, titled with the sanitised file name, bound to
  the digest of the file, with an empty history and no curriculum, and answers with
  that id. A header that is not a UUID is outside this case: it is answered with 500
  and creates nothing (lemma \<^verbatim>\<open>upload_malformed_header\<close>).
\<close>

theorem upload_new_conversation:
  assumes "file_part req = Some (name, file_content)" and "name \<noteq> []"
    and "x_conversation_id req = None \<or> x_conversation_id req = Some []
         \<or> (\<exists>id_text k. x_conversation_id req = Some id_text
                \<and> uuid_of env id_text = Inr k \<and> conversation_rows db k = None)"
    and "ingest env (secure_filename env name) file_content (md5_hexdigest env file_content) db
         = Inr (docs, before)"
    and "conversation_rows db (uuid4 env) = None"
    and "commit_exc env
           \<lparr>document_rows = docs,
            conversation_rows =
              (conversation_rows db)
                (uuid4 env \<mapsto>
                   new_conversation env (secure_filename env name) (md5_hexdigest env file_content))\<rparr>
         = None"
  shows "upload env req db
         = (File_processed (uuid4 env),
            \<lparr>document_rows = docs,
             conversation_rows =
               (conversation_rows db)
                 (uuid4 env \<mapsto>
                    new_conversation env (secure_filename env name) (md5_hexdigest env file_content))\<rparr>,
            before @ [Commit])
         \<and> (\<forall>m. fst (upload env req db) \<noteq> Error_response 404 m)"
proof -
  have "upload env req db
         = (File_processed (uuid4 env),
            \<lparr>document_rows = docs,
             conversation_rows =
               (conversation_rows db)
                 (uuid4 env \<mapsto>
                    new_conversation env (secure_filename env name) (md5_hexdigest env file_content))\<rparr>,
            before @ [Commit])"
    using assms
    by (auto simp: upload_def attach_def new_conversation_def Let_def split: option.splits)
  then show ?thesis by simp
qed

theorem upload_new_conversation_witness:
  "upload env0 stale_upload empty_db
   = (File_processed first_id,
      \<lparr>document_rows = stored_docs,
       conversation_rows = [first_id \<mapsto> new_conversation env0 ''a.pdf'' digest0]\<rparr>,
      [Extract_text, Split_text, Build_index, Commit])"
proof -
  have "upload env0 stale_upload empty_db
        = (File_processed (uuid4 env0),
           \<lparr>document_rows = stored_docs,
            conversation_rows =
              (conversation_rows empty_db)
                (uuid4 env0 \<mapsto>
                   new_conversation env0 (secure_filename env0 ''a.pdf'')
                     (md5_hexdigest env0 long_content))\<rparr>,
           [Extract_text, Split_text, Build_index] @ [Commit])"
    using upload_new_conversation
            [of stale_upload "''a.pdf''" long_content env0 empty_db stored_docs
               "[Extract_text, Split_text, Build_index]"]
          good_ingest
    by (simp add: stale_upload_def empty_db_def env0_def digest0_def read_stale_id)
  then show ?thesis
    by (simp add: env0_def empty_db_def digest0_def)
qed


subsection \<open>Deep dive\<close>

text \<open>
  C8. When no search API key is configured, \<^verbatim>\<open>deep_dive\<close> answers every request with
  the error \<^verbatim>\<open>Serper API key not configured\<close>, performs no effect at all (no generation
  call, no search call) and leaves the database, hence every history, as it was.
\<close>

theorem deep_dive_search_unconfigured:
  assumes "falsy (serper_api_key env)"
  shows "deep_dive env req db
         = (Error_response 500 ''Serper API key not configured'', db, [])"
  using assms by (simp add: deep_dive_def)

theorem deep_dive_search_unconfigured_witness:
  "deep_dive (env0\<lparr>serper_api_key := None\<rparr>) first_question stored_db
   = (Error_response 500 ''Serper API key not configured'', stored_db, [])"
  using deep_dive_search_unconfigured [of "env0\<lparr>serper_api_key := None\<rparr>" first_question stored_db]
  by (simp add: falsy_def)

subsection \<open>The scenarios, run\<close>

lemma long_content_length: "length long_content = 64"
  by (simp add: long_content_def)

lemma digest0_nonempty: "digest0 \<noteq> []"
  by (simp add: digest0_def)

lemmas turn_defs =
  chat_def tutor_def deep_dive_def streamed_def generate_general_def generate_doc_chat_def
  generate_tutor_response_def tutor_try_def generate_deep_dive_response_def deep_dive_try_def
  persist_turn_def langchain_history_format_def falsy_def Let_def tutor_document_context_def
  deep_dive_document_context_def page_content_def history_of_def missing_fields_def
  json_match_def snippets_def backslash_n_def long_content_length digest0_nonempty

lemmas scenario_defs =
  env0_def first_question_def stored_db_def stored_docs_def conv0_def tutored_db_def
  tutored_conv_def read_first_id first_id_nonempty






lemma deep_dive_legacy_run:
  "fst (deep_dive env0 first_question legacy_db)
   = Streamed [''Gathering live intelligence from the web...<br>'',
               searching_for ''query'',
               ''<br>Synthesizing intelligence brief...<br><br>'', ''Hel'', ''lo''] None
   \<and> history_of (fst (snd (deep_dive env0 first_question legacy_db))) first_id
       = Some [(''gemini'', ''user'', ''Deep Dive Analysis''), (''gemini'', ''model'', ''Hello'')]"
  by (simp add: turn_defs scenario_defs legacy_db_def)

lemma two_calls_effects:
  "length (snd (tutor_session two_calls first_id tutored_db)) = 8"
  by (simp add: turn_defs scenario_defs two_calls_def)

lemma mixed_chat_response:
  "fst (chat env0 first_question mixed_db) = Streamed [''answer''] None"
  by (simp add: turn_defs scenario_defs mixed_db_def mixed_conv_def)

lemma mixed_tutor_response:
  "fst (tutor env0 first_question mixed_db) = Streamed [''Hel'', ''lo''] None"
  by (simp add: turn_defs scenario_defs mixed_db_def mixed_conv_def)

lemma plain_tutor_response:
  "fst (tutor env0 first_question plain_db)
   = Error_response 404 ''Conversation or document not found''"
  by (simp add: turn_defs scenario_defs plain_db_def plain_conv_def)

text \<open>
  The chunks \<^verbatim>\<open>upload\<close> stores are plain texts, of which \<^verbatim>\<open>deep_dive\<close> reads
  \<^verbatim>\<open>page_content\<close> (line 623): on a document with such a chunk it answers 500 before
  any stream starts, where \<^verbatim>\<open>tutor\<close> (line 522) accepts both kinds of chunk.
\<close>

lemma page_contents_of_text:
  "Str_chunk s \<in> set cs \<Longrightarrow> \<exists>e. page_contents cs = Inl e"
  by (induction cs) (auto simp: page_content_def split: chunk.splits sum.splits)

lemma deep_dive_rejects_text_chunks:
  assumes "conversation_rows db cid = Some conv"
    and "conversation_id req = Some id_text \<and> uuid_of env id_text = Inr cid"
    and "doc_hash conv = Some h" and "h \<noteq> []" and "document_rows db h = Some doc_store"
    and "Str_chunk s \<in> set (chunks doc_store)" and "\<not> falsy (serper_api_key env)"
  shows "\<exists>e. deep_dive env req db = (deep_dive_failed e, db, [])"
  using assms page_contents_of_text [OF assms(6)]
  by (auto simp: deep_dive_def deep_dive_document_context_def falsy_def)

lemma deep_dive_after_upload:
  "deep_dive env0 first_question stored_db
   = (deep_dive_failed
        (AttributeError (quoted ''str'' @ '' object has no attribute '' @ quoted ''page_content'')),
      stored_db, [])"
  by (simp add: turn_defs scenario_defs)

subsection \<open>The history after a turn\<close>



subsection \<open>Exceptions inside a stream\<close>

text \<open>
  The generators of \<^verbatim>\<open>tutor\<close> and \<^verbatim>\<open>deep_dive\<close> catch every exception and end their
  stream with a text that reports it (lemmas \<^verbatim>\<open>tutor_run\<close>, \<^verbatim>\<open>deep_dive_run\<close> and
  \<^verbatim>\<open>guarded_streams_end_normally\<close>). The two generators of \<^verbatim>\<open>chat\<close> have no
  \<^verbatim>\<open>try\<close>, and the \<^verbatim>\<open>try\<close> of the view has ended when they run.

  C3 at its failing inputs. In plain chat, an exception of \<^verbatim>\<open>llm.invoke\<close> leaves the
  generator before anything is sent, and an exception of the commit leaves it after the
  answer has been sent; in document Q&A an exception of the chain leaves the generator.
  In each case the stream carries no text reporting the error.
\<close>

theorem chat_exception_leaves_generator:
  "chat env_llm_down first_question plain_db
   = (Streamed [] (Some (Failure ''connection refused'')), plain_db, [Llm_invoke ''hello''])
   \<and> chat env_store_down first_question plain_db
     = (Streamed [''echo hello''] (Some (Failure ''connection lost'')), plain_db,
        [Llm_invoke ''hello'', Yield ''echo hello''])
   \<and> chat env_chain_down first_question stored_db
     = (Streamed [] (Some (Failure ''connection refused'')), stored_db,
        [Load_index, Chain_call ''hello'' []])"
  by (simp add: turn_defs scenario_defs env_llm_down_def env_store_down_def env_chain_down_def
      plain_db_def plain_conv_def)

subsection \<open>The memory of a turn\<close>

text \<open>
  The claim C6 as stated, that a document Q&A turn replays the turns of both channels,
  fails on a history that holds the two role-tagged entries of a tutor turn: the chain
  is called with an empty memory.
\<close>

theorem chat_ignores_tutor_history:
  "map_option chat_history (conversation_rows tutored_db first_id)
   = Some [(''gemini'', ''user'', ''Let us begin''), (''gemini'', ''model'', ''Hello'')]
   \<and> snd (snd (chat env0 first_question tutored_db))
     = [Load_index, Chain_call ''hello'' [], Yield ''answer'', Commit]"
  by (simp add: turn_defs scenario_defs)

text \<open>
  C6, amended. Each mode replays its own channel only. A document Q&A turn passes to the
  chain exactly the \<^verbatim>\<open>(message, answer)\<close> pairs of the entries tagged \<^verbatim>\<open>langchain\<close>, in
  order, and none of the role-tagged entries; a tutor turn puts into its prompt exactly
  the entries tagged \<^verbatim>\<open>gemini\<close>, in order, and none of the pairs.
\<close>

theorem memory_by_channel:
  assumes "conversation_rows db cid = Some conv"
    and "conversation_id req = Some id_text" and "uuid_of env id_text = Inr cid"
    and "message req = Some msg"
  shows "(\<forall>sent raised db' effects.
            chat env req db = (Streamed sent raised, db', effects) \<and> \<not> falsy (doc_hash conv)
            \<longrightarrow> (\<exists>rest. effects
                         = Load_index
                           # Chain_call msg
                               (map snd (filter (\<lambda>item. fst item = ''langchain'') (chat_history conv)))
                           # rest))
       \<and> (\<forall>sent raised db' effects.
            tutor env req db = (Streamed sent raised, db', effects)
            \<longrightarrow> (\<exists>first plan snippet.
                    Generate_stream
                      (Tutor_prompt first plan
                         (filter (\<lambda>item. fst item = ''gemini'') (chat_history conv)) snippet msg)
                    \<in> set effects))"
proof (intro conjI allI impI)
  fix sent raised db' effects
  assume a: "chat env req db = (Streamed sent raised, db', effects) \<and> \<not> falsy (doc_hash conv)"
  from assms(2,3)
  have named: "conversation_id req = Some id_text \<and> uuid_of env id_text = Inr cid"
    by simp
  from chat_view [OF assms(1) named] a assms(4) obtain index where
    run: "chat env req db
           = streamed [Load_index]
               (generate_doc_chat env index msg
                  (langchain_history_format (chat_history conv)) cid conv (chat_history conv) db)"
    by auto
  let ?memory = "langchain_history_format (chat_history conv)"
  obtain effects0 raised0 db0 where
    g: "generate_doc_chat env index msg ?memory cid conv (chat_history conv) db
        = (effects0, raised0, db0)"
    by (cases "generate_doc_chat env index msg ?memory cid conv (chat_history conv) db")
  from run a g have "effects = Load_index # effects0"
    by (auto simp: streamed_def)
  moreover from generate_doc_chat_cases [OF g]
  have "\<exists>rest. effects0 = Chain_call msg ?memory # rest"
    by auto
  ultimately show "\<exists>rest. effects
                         = Load_index
                           # Chain_call msg
                               (map snd (filter (\<lambda>item. fst item = ''langchain'') (chat_history conv)))
                           # rest"
    by (auto simp: langchain_history_format_def)
next
  fix sent raised db' effects
  assume a: "tutor env req db = (Streamed sent raised, db', effects)"
  from assms(2,3)
  have named: "conversation_id req = Some id_text \<and> uuid_of env id_text = Inr cid"
    by simp
  have "\<exists>before p rest.
          (\<exists>first plan snippet.
             p = Tutor_prompt first plan
                   (filter (\<lambda>item. fst item = ''gemini'') (chat_history conv)) snippet msg)
          \<and> effects = before @ Generate_stream p # rest"
    using tutor_run [OF assms(1) named a] assms(4)
    apply (elim disjE)
     apply simp
    apply (elim exE conjE)
    apply simp
    apply blast
    done
  then obtain before p rest first plan snippet where
    "p = Tutor_prompt first plan
           (filter (\<lambda>item. fst item = ''gemini'') (chat_history conv)) snippet msg"
    and "effects = before @ Generate_stream p # rest"
    by blast
  then have "Generate_stream
               (Tutor_prompt first plan
                  (filter (\<lambda>item. fst item = ''gemini'') (chat_history conv)) snippet msg)
             \<in> set effects"
    by simp
  then show "\<exists>first plan snippet.
                    Generate_stream
                      (Tutor_prompt first plan
                         (filter (\<lambda>item. fst item = ''gemini'') (chat_history conv)) snippet msg)
                    \<in> set effects"
    by blast
qed

theorem memory_by_channel_witness:
  "(\<exists>rest. snd (snd (chat env0 first_question mixed_db))
            = Load_index # Chain_call ''hello'' [(''q1'', ''a1''), (''q2'', ''a2'')] # rest)
   \<and> (\<exists>first plan snippet.
         Generate_stream
           (Tutor_prompt first plan
              [(''gemini'', ''user'', ''Let us begin''), (''gemini'', ''model'', ''Hello'')]
              snippet ''hello'')
         \<in> set (snd (snd (tutor env0 first_question mixed_db))))"
proof -
  let ?chat = "chat env0 first_question mixed_db"
  let ?tutor = "tutor env0 first_question mixed_db"
  have row: "conversation_rows mixed_db first_id = Some mixed_conv"
    by (simp add: mixed_db_def)
  have cid: "conversation_id first_question = Some first_id"
    and msg: "message first_question = Some ''hello''"
    by (simp_all add: first_question_def)
  have bound: "\<not> falsy (doc_hash mixed_conv)"
    by (simp add: mixed_conv_def tutored_conv_def falsy_def digest0_nonempty)
  have chat_served: "?chat = (Streamed [''answer''] None, fst (snd ?chat), snd (snd ?chat))"
    using mixed_chat_response by (metis prod.collapse)
  have tutor_served:
    "?tutor = (Streamed [''Hel'', ''lo''] None, fst (snd ?tutor), snd (snd ?tutor))"
    using mixed_tutor_response by (metis prod.collapse)
  have named: "uuid_of env0 first_id = Inr first_id"
    by (simp add: env0_def read_first_id)
  note both = memory_by_channel [OF row cid named msg]
  have pairs: "map snd (filter (\<lambda>item. fst item = ''langchain'') (chat_history mixed_conv))
               = [(''q1'', ''a1''), (''q2'', ''a2'')]"
    by (simp add: mixed_conv_def)
  have roles: "filter (\<lambda>item. fst item = ''gemini'') (chat_history mixed_conv)
               = [(''gemini'', ''user'', ''Let us begin''), (''gemini'', ''model'', ''Hello'')]"
    by (simp add: mixed_conv_def)
  from both chat_served bound pairs
  have "\<exists>rest. snd (snd ?chat)
            = Load_index # Chain_call ''hello'' [(''q1'', ''a1''), (''q2'', ''a2'')] # rest"
    by metis
  moreover from both tutor_served roles
  have "\<exists>first plan snippet.
         Generate_stream
           (Tutor_prompt first plan
              [(''gemini'', ''user'', ''Let us begin''), (''gemini'', ''model'', ''Hello'')]
              snippet ''hello'')
         \<in> set (snd (snd ?tutor))"
    by metis
  ultimately show ?thesis by blast
qed

subsection \<open>The curriculum\<close>

text \<open>
  The claim C4 as stated, that a curriculum which is not null is never generated again,
  fails for the empty text: the tutor request generates a curriculum and stores it over
  the empty one.
\<close>

theorem tutor_regenerates_empty_curriculum:
  "map_option tutor_curriculum (conversation_rows blank_db first_id) = Some (Some [])
   \<and> Generate (Curriculum_prompt (long_content @ backslash_n))
       \<in> set (snd (snd (tutor env0 first_question blank_db)))
   \<and> map_option tutor_curriculum
         (conversation_rows (fst (snd (tutor env0 first_question blank_db))) first_id)
       = Some (Some ''1. Topic'')"
  by (simp add: turn_defs scenario_defs blank_db_def)

text \<open>
  C4, amended. When the curriculum of a conversation is a non-empty text, no series of
  tutor requests on the conversation calls the curriculum generation (the only
  non-streamed generation call of \<^verbatim>\<open>tutor\<close>), and the curriculum stored afterwards is the
  same text. The test of the source is \<^verbatim>\<open>not conv.tutor_curriculum\<close>, which also holds
  for the empty text.
\<close>

theorem curriculum_generated_once:
  assumes "conversation_rows db cid = Some conv"
    and "tutor_curriculum conv = Some plan" and "plan \<noteq> []"
    and "\<forall>call\<in>set calls. uuid_of (fst call) id_text = Inr cid"
    and "tutor_session calls id_text db = (db', effects)"
  shows "(\<forall>q. Generate q \<notin> set effects)
       \<and> (\<exists>conv'. conversation_rows db' cid = Some conv' \<and> tutor_curriculum conv' = Some plan)"
  using tutor_session_keeps_curriculum [OF assms(1) _ assms(5,4)] assms(2,3)
  by (simp add: falsy_def)

theorem curriculum_generated_once_witness:
  "(\<forall>q. Generate q \<notin> set (snd (tutor_session two_calls first_id tutored_db)))
   \<and> (\<exists>conv'. conversation_rows (fst (tutor_session two_calls first_id tutored_db))
                  first_id = Some conv'
          \<and> tutor_curriculum conv' = Some ''1. Topic'')
   \<and> length (snd (tutor_session two_calls first_id tutored_db)) = 8"
proof -
  let ?run = "tutor_session two_calls first_id tutored_db"
  have row: "conversation_rows tutored_db first_id = Some tutored_conv"
    by (simp add: tutored_db_def)
  have plan: "tutor_curriculum tutored_conv = Some ''1. Topic''"
    by (simp add: tutored_conv_def)
  have run: "?run = (fst ?run, snd ?run)"
    by simp
  have named: "\<forall>call\<in>set two_calls. uuid_of (fst call) first_id = Inr first_id"
    by (simp add: two_calls_def env0_def read_first_id)
  from curriculum_generated_once [OF row plan _ named run] two_calls_effects show ?thesis
    by simp
qed

subsection \<open>Conversations without a document\<close>

text \<open>
  The claim C7 as stated, that \<^verbatim>\<open>deep_dive\<close> on a conversation without a document
  answers with a not-found or bad-request error, fails when no search key is configured:
  the status is 500.
\<close>

theorem deep_dive_unconfigured_without_document:
  "map_option doc_hash (conversation_rows plain_db first_id) = Some None
   \<and> fst (deep_dive env_no_key first_question plain_db)
     = Error_response 500 ''Serper API key not configured''"
  by (simp add: turn_defs scenario_defs env_no_key_def plain_db_def plain_conv_def)

text \<open>
  C7, amended. On a stored conversation that has no document, \<^verbatim>\<open>tutor\<close> answers with
  an error of status 400 or 404, and so does \<^verbatim>\<open>deep_dive\<close> when a search key is
  configured (status 400); in both cases nothing is generated and the database is the
  one before the request. Without a search key \<^verbatim>\<open>deep_dive\<close> has already answered with
  status 500.
\<close>

theorem no_document_no_turn:
  assumes "conversation_rows db cid = Some conv" and "falsy (doc_hash conv)"
    and "conversation_id req = Some id_text" and "uuid_of env id_text = Inr cid"
  shows "(\<exists>status m. tutor env req db = (Error_response status m, db, []) \<and> status \<in> {400, 404})
       \<and> (\<not> falsy (serper_api_key env) \<longrightarrow>
            deep_dive env req db
            = (Error_response 400 ''A document must be associated for a Deep Dive.'', db, []))"
  using assms
  by (auto simp: tutor_def deep_dive_def missing_fields_def split: option.splits)

theorem no_document_no_turn_witness:
  "tutor env0 first_question plain_db
   = (Error_response 404 ''Conversation or document not found'', plain_db, [])
   \<and> deep_dive env0 first_question plain_db
     = (Error_response 400 ''A document must be associated for a Deep Dive.'', plain_db, [])"
proof -
  have row: "conversation_rows plain_db first_id = Some plain_conv"
    by (simp add: plain_db_def)
  have none: "falsy (doc_hash plain_conv)"
    by (simp add: plain_conv_def falsy_def)
  have cid: "conversation_id first_question = Some first_id"
    by (simp add: first_question_def)
  have key: "\<not> falsy (serper_api_key env0)"
    by (simp add: env0_def falsy_def)
  have named: "uuid_of env0 first_id = Inr first_id"
    by (simp add: env0_def read_first_id)
  note both = no_document_no_turn [OF row none cid named]
  with plain_tutor_response key show ?thesis by auto
qed

end
